theory Spec2Isabelle
  imports Main
begin

section \<open>Data model (index.ts)\<close>

text \<open>
  A JavaScript \<^verbatim>\<open>number\<close> is modelled as an integer: the values the hook handles are
  retry intervals in milliseconds (the stream reader produces them with \<^verbatim>\<open>parseInt\<close> and
  drops \<^verbatim>\<open>NaN\<close>), and the hook never does arithmetic on them.
\<close>

type_synonym number = int

datatype FetchEventSourceState = CONNECTING | OPEN | CLOSED

text \<open>
  \<^verbatim>\<open>FetchEventSourceMessage\<close>: \<^verbatim>\<open>id\<close>, \<^verbatim>\<open>event\<close> and \<^verbatim>\<open>data\<close> are strings (empty when the
  server sent none), \<^verbatim>\<open>retry\<close> is optional. The field \<^verbatim>\<open>id\<close> is written \<open>id'\<close>.
\<close>

record FetchEventSourceMessage =
  id' :: string
  event :: string
  data :: string
  retry :: "number option"

text \<open>
  What the hook reads of a \<^verbatim>\<open>Response\<close>: \<^verbatim>\<open>response.ok\<close>, \<^verbatim>\<open>response.status\<close> and
  \<^verbatim>\<open>response.headers.get("content-type")\<close> (\<open>None\<close> is \<^verbatim>\<open>null\<close>).
\<close>

record Response =
  ok :: bool
  status :: nat
  content_type :: "string option"

text \<open>
  Values that are thrown or that a promise rejects with: the hook's own
  \<^verbatim>\<open>FetchEventSourceOpenError\<close> (message and response), any other \<^verbatim>\<open>Error\<close> object of the
  transport or of a caller's \<^verbatim>\<open>onOpen\<close>, and the values that are not objects and that
  JavaScript takes for false, as in \<^verbatim>\<open>Promise.reject()\<close>. \<open>truthy\<close> is the test that
  \<^verbatim>\<open>if (err)\<close> makes.
\<close>

datatype falsy_value = JsUndefined | JsNull | JsFalse | JsZero | JsNaN | JsEmptyString

datatype thrown =
    FetchEventSourceOpenError string Response
  | Error string
  | Falsy falsy_value

fun truthy :: "thrown \<Rightarrow> bool" where
  "truthy (Falsy v) = False"
| "truthy (FetchEventSourceOpenError message response) = True"
| "truthy (Error message) = True"

text \<open>The value a policy returns: \<^verbatim>\<open>false\<close> or a number of milliseconds.\<close>

datatype RetryDecision = DoNotRetry | RetryAfter number

text \<open>
  \<^verbatim>\<open>fetchRequestInit\<close> is destructured into \<^verbatim>\<open>headers\<close> and \<^verbatim>\<open>rest\<close> (method, body,
  credentials, ...), both objects with string keys: the entries of each, every key once,
  in the order in which \<^verbatim>\<open>Object.keys\<close> and \<^verbatim>\<open>Object.values\<close> list them.
\<close>

record RequestInit =
  headers :: "(string \<times> string) list option"
  rest :: "(string \<times> string) list"

text \<open>
  \<^verbatim>\<open>FetchEventSourceConfig\<close>: every option is optional; an absent \<^verbatim>\<open>config\<close> is the record
  with every field \<open>None\<close>. A caller's \<^verbatim>\<open>onOpen\<close> returns a promise: \<open>None\<close> when
  it resolves, \<open>Some e\<close> when it rejects with \<open>e\<close>. The policies \<^verbatim>\<open>onClose\<close> and
  \<^verbatim>\<open>onError\<close> and the callback \<^verbatim>\<open>onEventMessage\<close> are functions that return: a callback
  that throws, or that calls \<^verbatim>\<open>open\<close> or \<^verbatim>\<open>close\<close> itself, is outside the model. The
  option \<^verbatim>\<open>fetch\<close> is never read by the hook.
\<close>

record FetchEventSourceConfig =
  fetchRequestInit :: "RequestInit option"
  openWhenHidden :: "bool option"
  initiallyOpen :: "bool option"
  defaultRetryInterval :: "number option"
  onOpen :: "(Response \<Rightarrow> thrown option) option"
  onEventMessage :: "(FetchEventSourceMessage \<Rightarrow> unit) option"
  onClose :: "(unit \<Rightarrow> RetryDecision) option"
  onError :: "(thrown \<Rightarrow> nat \<Rightarrow> RetryDecision) option"

section \<open>The session: refs, state and the browser objects they point to\<close>

text \<open>
  Each call of \<^verbatim>\<open>_startStream\<close> makes one \<^verbatim>\<open>AbortController\<close> and one call of
  \<^verbatim>\<open>fetchEventSource\<close>; an exchange records the arguments of that call and whether its
  signal is aborted. A controller is the index of its exchange. The \<open>phase\<close> is the
  stream reader's: awaiting the response, awaiting the promise of a caller's
  \<^verbatim>\<open>onOpen\<close> (with the outcome the promise will have), reading the body, or settled.
\<close>

datatype phase = Fetching | AwaitingOnOpen "thrown option" | Streaming | Finished

record exchange =
  ex_input :: string
  ex_headers :: "string \<rightharpoonup> string"
  ex_init :: "string \<rightharpoonup> string"
  signal_aborted :: bool
  phase :: phase

text \<open>The only function the hook ever hands to \<^verbatim>\<open>window.setTimeout\<close> is \<^verbatim>\<open>open\<close>.\<close>

datatype timer_handler = OpenHandler

text \<open>An invocation of one of the caller's callbacks, with its arguments.\<close>

datatype callback_call =
    OnOpenCall Response
  | OnEventMessageCall FetchEventSourceMessage
  | OnCloseCall
  | OnErrorCall thrown nat

text \<open>
  The refs and the state of \<^verbatim>\<open>useFetchEventSource\<close>, followed by what they refer to
  outside the hook: the exchanges started so far, the pending timers of the window
  (handle, handler, delay), the next timer handle, and the callbacks invoked so far.
\<close>

record session =
  abortController :: "nat option"
  lastEventId :: "string option"
  retryTimeoutId :: "nat option"
  explicitlyOpen :: bool
  errorRetries :: nat
  retryInterval :: number
  hidden :: bool
  readyState :: FetchEventSourceState
  eventMessage :: "FetchEventSourceMessage option"
  exchanges :: "exchange list"
  timers :: "(nat \<times> timer_handler \<times> number) list"
  nextTimerId :: nat
  calls :: "callback_call list"

definition DefaultRetryInterval :: number where
  "DefaultRetryInterval = 1000"

text \<open>The values of the refs at the first render.\<close>

definition initial :: "FetchEventSourceConfig \<Rightarrow> session" where
  "initial config =
     \<lparr>abortController = None,
      lastEventId = None,
      retryTimeoutId = None,
      explicitlyOpen = (case initiallyOpen config of None \<Rightarrow> True | Some b \<Rightarrow> b),
      errorRetries = 0,
      retryInterval =
        (case defaultRetryInterval config of None \<Rightarrow> DefaultRetryInterval | Some n \<Rightarrow> n),
      hidden = False,
      readyState = CLOSED,
      eventMessage = None,
      exchanges = [],
      timers = [],
      nextTimerId = 1,
      calls = []\<rparr>"

text \<open>
  \<^verbatim>\<open>const { headers, ...rest } = config?.fetchRequestInit || {}\<close>: the entries of the two
  objects, and the objects as maps from keys to values.
\<close>

definition header_entries :: "FetchEventSourceConfig \<Rightarrow> (string \<times> string) list option" where
  "header_entries config =
     (case fetchRequestInit config of None \<Rightarrow> None | Some init \<Rightarrow> headers init)"

definition rest_entries :: "FetchEventSourceConfig \<Rightarrow> (string \<times> string) list" where
  "rest_entries config =
     (case fetchRequestInit config of None \<Rightarrow> [] | Some init \<Rightarrow> rest init)"

definition headers_of :: "FetchEventSourceConfig \<Rightarrow> (string \<rightharpoonup> string) option" where
  "headers_of config = map_option map_of (header_entries config)"

definition rest_of :: "FetchEventSourceConfig \<Rightarrow> (string \<rightharpoonup> string)" where
  "rest_of config = map_of (rest_entries config)"

section \<open>Browser primitives\<close>

text \<open>
  \<^verbatim>\<open>window.setTimeout\<close> returns a fresh positive handle and leaves the timer pending;
  \<^verbatim>\<open>window.clearTimeout\<close> removes the timer with that handle, if it is still pending.
\<close>

definition setTimeout :: "timer_handler \<Rightarrow> number \<Rightarrow> session \<Rightarrow> nat \<times> session" where
  "setTimeout handler ms s =
     (nextTimerId s,
      s\<lparr>timers := timers s @ [(nextTimerId s, handler, ms)],
        nextTimerId := Suc (nextTimerId s)\<rparr>)"

definition clearTimeout :: "nat \<Rightarrow> session \<Rightarrow> session" where
  "clearTimeout t s = s\<lparr>timers := filter (\<lambda>timer. fst timer \<noteq> t) (timers s)\<rparr>"

text \<open>\<^verbatim>\<open>abortController.current?.abort()\<close>: the signal of the controller's exchange is aborted.\<close>

definition abort :: "nat option \<Rightarrow> session \<Rightarrow> session" where
  "abort controller s =
     (case controller of
        None \<Rightarrow> s
      | Some c \<Rightarrow> s\<lparr>exchanges := (exchanges s)[c := (exchanges s ! c)\<lparr>signal_aborted := True\<rparr>]\<rparr>)"

section \<open>The hook (useFetchEventSource.ts)\<close>

text \<open>
  \<^verbatim>\<open>_clearRetryTimeout\<close>. Timer handles are positive, so the truthiness test
  \<^verbatim>\<open>if (retryTimeoutId.current)\<close> is the test for \<^verbatim>\<open>null\<close>.
\<close>

definition clearRetryTimeout :: "session \<Rightarrow> session" where
  "clearRetryTimeout s =
     (case retryTimeoutId s of
        None \<Rightarrow> s
      | Some t \<Rightarrow> (clearTimeout t s)\<lparr>retryTimeoutId := None\<rparr>)"

text \<open>\<^verbatim>\<open>close\<close>.\<close>

definition close_call :: "session \<Rightarrow> session" where
  "close_call s =
     (let s = s\<lparr>explicitlyOpen := False\<rparr>;
          s = abort (abortController s) s;
          s = clearRetryTimeout s
      in s\<lparr>readyState := CLOSED\<rparr>)"

text \<open>
  \<^verbatim>\<open>onmessage\<close>. \<^verbatim>\<open>if (ev.retry)\<close> is a truthiness test: it fails for an absent field
  and for the number 0.
\<close>

definition onmessage :: "FetchEventSourceConfig \<Rightarrow> FetchEventSourceMessage \<Rightarrow> session \<Rightarrow> session" where
  "onmessage config ev s =
     (let s = s\<lparr>lastEventId := (if id' ev = '''' then None else Some (id' ev))\<rparr>;
          s = (case retry ev of
                 None \<Rightarrow> s
               | Some r \<Rightarrow> if r = 0 then s else s\<lparr>retryInterval := r\<rparr>);
          s = s\<lparr>eventMessage := Some ev\<rparr>
      in case onEventMessage config of
           None \<Rightarrow> s
         | Some f \<Rightarrow> s\<lparr>calls := calls s @ [OnEventMessageCall ev]\<rparr>)"

text \<open>
  \<^verbatim>\<open>_handleRetry\<close>. The argument is \<open>None\<close> when the function is called without one.
  Both tests \<^verbatim>\<open>if (err)\<close> are truthiness tests: \<open>failure\<close> is the error when they
  succeed, and \<open>None\<close> for a missing argument and for a value that JavaScript takes for
  false. The policy for the case at hand is asked, when the caller supplied it;
  \<^verbatim>\<open>false\<close> returns at once; otherwise a timer that calls \<^verbatim>\<open>open\<close> is set and its handle
  stored.
\<close>

definition handleRetry :: "FetchEventSourceConfig \<Rightarrow> thrown option \<Rightarrow> session \<Rightarrow> session" where
  "handleRetry config err s =
     (let failure = (case err of None \<Rightarrow> None | Some e \<Rightarrow> if truthy e then Some e else None);
          retryIntervalMs =
            (case failure of
               Some e \<Rightarrow> map_option (\<lambda>f. f e (errorRetries s)) (onError config)
             | None \<Rightarrow> map_option (\<lambda>f. f ()) (onClose config));
          s = (case failure of
                 Some e \<Rightarrow>
                   (case onError config of
                      None \<Rightarrow> s
                    | Some f \<Rightarrow> s\<lparr>calls := calls s @ [OnErrorCall e (errorRetries s)]\<rparr>)
               | None \<Rightarrow>
                   (case onClose config of
                      None \<Rightarrow> s
                    | Some f \<Rightarrow> s\<lparr>calls := calls s @ [OnCloseCall]\<rparr>))
      in if retryIntervalMs = Some DoNotRetry then s
         else
           let retryIntervalMs =
                 (case retryIntervalMs of
                    Some (RetryAfter ms) \<Rightarrow> ms
                  | _ \<Rightarrow> retryInterval s);
               s = (if failure = None then s else s\<lparr>errorRetries := errorRetries s + 1\<rparr>);
               set = setTimeout OpenHandler retryIntervalMs s
           in (snd set)\<lparr>retryTimeoutId := Some (fst set)\<rparr>)"

text \<open>
  The object \<^verbatim>\<open>requestHeaders\<close>: the injected \<^verbatim>\<open>Last-Event-ID\<close> is spread first, the
  caller's headers after it, so a caller's key wins. \<^verbatim>\<open>lastEventId.current && ...\<close>
  injects nothing for \<^verbatim>\<open>null\<close> and for the empty string.
\<close>

definition requestHeaders :: "FetchEventSourceConfig \<Rightarrow> session \<Rightarrow> (string \<rightharpoonup> string)" where
  "requestHeaders config s =
     (case lastEventId s of
        None \<Rightarrow> Map.empty
      | Some i \<Rightarrow> if i = '''' then Map.empty else [''Last-Event-ID'' \<mapsto> i])
     ++ (case headers_of config of None \<Rightarrow> Map.empty | Some h \<Rightarrow> h)"

text \<open>
  \<^verbatim>\<open>_startStream\<close>, up to the call of \<^verbatim>\<open>fetchEventSource\<close>: a new controller, the state
  \<open>CONNECTING\<close>, and an exchange with the signal of that controller.
\<close>

definition startStream :: "FetchEventSourceConfig \<Rightarrow> string \<Rightarrow> session \<Rightarrow> session" where
  "startStream config input s =
     (let s = s\<lparr>abortController := Some (length (exchanges s))\<rparr>;
          s = s\<lparr>readyState := CONNECTING\<rparr>
      in s\<lparr>exchanges := exchanges s @
             [\<lparr>ex_input = input,
               ex_headers = requestHeaders config s,
               ex_init = rest_of config,
               signal_aborted = False,
               phase = Fetching\<rparr>]\<rparr>)"

text \<open>
  \<^verbatim>\<open>String.prototype.toLowerCase\<close> on a header value, whose characters are bytes: the
  letters A-Z and the capital letters of Latin-1 move up by 32.
\<close>

definition toLowerCase_char :: "char \<Rightarrow> char" where
  "toLowerCase_char c =
     (let n = (of_char c :: nat)
      in if (65 \<le> n \<and> n \<le> 90) \<or> (192 \<le> n \<and> n \<le> 222 \<and> n \<noteq> 215)
         then char_of (n + 32) else c)"

definition toLowerCase :: "string \<Rightarrow> string" where
  "toLowerCase str = map toLowerCase_char str"

text \<open>A number in a template literal: its decimal digits.\<close>

function string_of_nat :: "nat \<Rightarrow> string" where
  "string_of_nat n =
     (if n < 10 then [char_of (48 + n)]
      else string_of_nat (n div 10) @ [char_of (48 + n mod 10)])"
  by pat_completeness auto
termination
  by (relation "measure (\<lambda>n. n)") auto

declare string_of_nat.simps [simp del]

definition openError :: "Response \<Rightarrow> thrown" where
  "openError response =
     FetchEventSourceOpenError
       (''Invalid Server-Sent Events response from server, Status: ''
          @ string_of_nat (status response)
          @ '' Content-Type: ''
          @ (case content_type response of None \<Rightarrow> ''null'' | Some c \<Rightarrow> c))
       response"

text \<open>
  \<^verbatim>\<open>onopen\<close> is an async function with one suspension point, the \<^verbatim>\<open>await\<close> of the
  caller's \<^verbatim>\<open>onOpen\<close>. \<open>onopen_begin\<close> is the part before it: it throws the
  open error, or it returns the outcome the awaited promise will have. \<open>onopen_resume\<close>
  is the part after it. \<open>onopen\<close> runs both with nothing in between.
\<close>

definition onopen_begin ::
  "FetchEventSourceConfig \<Rightarrow> Response \<Rightarrow> session \<Rightarrow> thrown + (thrown option \<times> session)" where
  "onopen_begin config response s =
     (if onOpen config = None \<and>
         (\<not> ok response \<or>
          map_option toLowerCase (content_type response) \<noteq> Some ''text/event-stream'')
      then Inl (openError response)
      else case onOpen config of
             None \<Rightarrow> Inr (None, s)
           | Some f \<Rightarrow> Inr (f response, s\<lparr>calls := calls s @ [OnOpenCall response]\<rparr>))"

definition onopen_resume :: "thrown option \<Rightarrow> session \<Rightarrow> thrown + session" where
  "onopen_resume outcome s =
     (case outcome of
        Some e \<Rightarrow> Inl e
      | None \<Rightarrow> Inr (s\<lparr>readyState := OPEN, errorRetries := 0\<rparr>))"

definition onopen :: "FetchEventSourceConfig \<Rightarrow> Response \<Rightarrow> session \<Rightarrow> thrown + session" where
  "onopen config response s =
     (case onopen_begin config response s of
        Inl e \<Rightarrow> Inl e
      | Inr awaited \<Rightarrow> onopen_resume (fst awaited) (snd awaited))"

text \<open>\<^verbatim>\<open>onclose\<close>, and the handler given to \<^verbatim>\<open>.catch\<close>.\<close>

definition onclose :: "FetchEventSourceConfig \<Rightarrow> session \<Rightarrow> session" where
  "onclose config s = handleRetry config None (s\<lparr>readyState := CLOSED\<rparr>)"

definition oncatch :: "FetchEventSourceConfig \<Rightarrow> thrown \<Rightarrow> session \<Rightarrow> session" where
  "oncatch config err s =
     handleRetry config (Some err) (clearRetryTimeout (s\<lparr>readyState := CLOSED\<rparr>))"

text \<open>
  \<^verbatim>\<open>open\<close>. The arguments \<open>config\<close> and \<open>input\<close> of this and of every other function of
  the hook are those of the render whose closure the function is; \<^verbatim>\<open>open\<close> is memoised
  with an empty dependency list, so its closure is that of the first render.
\<close>

definition open_call :: "FetchEventSourceConfig \<Rightarrow> string \<Rightarrow> session \<Rightarrow> session" where
  "open_call config input s =
     (let s = s\<lparr>explicitlyOpen := True\<rparr>
      in if readyState s = CLOSED then startStream config input s else s)"

text \<open>
  The first effect. In its condition the source writes \<^verbatim>\<open>hidden\<close>, the ref object, which
  is truthy whatever \<^verbatim>\<open>hidden.current\<close> holds: it is \<open>True\<close> below. When the effect
  runs again, the cleanup of the previous render runs and then the body of the new one
  (\<open>reconfigure\<close>).
\<close>

definition effect_body :: "FetchEventSourceConfig \<Rightarrow> string \<Rightarrow> session \<Rightarrow> session" where
  "effect_body config input s =
     (if explicitlyOpen s = True \<and> \<not> (True \<and> openWhenHidden config = Some False)
      then startStream config input s else s)"

definition effect_cleanup :: "session \<Rightarrow> session" where
  "effect_cleanup s = clearRetryTimeout (abort (abortController s) s)"

definition reconfigure :: "FetchEventSourceConfig \<Rightarrow> string \<Rightarrow> session \<Rightarrow> session" where
  "reconfigure config input s = effect_body config input (effect_cleanup s)"

definition mount :: "FetchEventSourceConfig \<Rightarrow> string \<Rightarrow> session" where
  "mount config input = effect_body config input (initial config)"

text \<open>
  The dependency list of the first effect:
  \<^verbatim>\<open>[input, ...Object.values(headers || {}), ...Object.keys(headers || {}), ...Object.values(rest || {})]\<close>.
  It holds the values of the request options, not their keys.
\<close>

definition dependencies :: "FetchEventSourceConfig \<Rightarrow> string \<Rightarrow> string list" where
  "dependencies config input =
     (let headers = (case header_entries config of None \<Rightarrow> [] | Some h \<Rightarrow> h);
          rest = rest_entries config
      in input # map snd headers @ map fst headers @ map snd rest)"

text \<open>
  A render after the first one. The framework runs the effect again when the new
  dependency list differs from the previous one; it compares the two element by
  element, over their common length.
\<close>

definition areHookInputsEqual :: "string list \<Rightarrow> string list \<Rightarrow> bool" where
  "areHookInputsEqual nextDeps prevDeps =
     list_all (\<lambda>deps. fst deps = snd deps) (zip nextDeps prevDeps)"

definition rerender ::
  "FetchEventSourceConfig \<Rightarrow> string \<Rightarrow> FetchEventSourceConfig \<Rightarrow> string \<Rightarrow> session \<Rightarrow> session" where
  "rerender prevConfig prevInput config input s =
     (if areHookInputsEqual (dependencies config input) (dependencies prevConfig prevInput)
      then s else reconfigure config input s)"

text \<open>
  The second effect: \<^verbatim>\<open>onVisibilityChange\<close>, with \<open>isHidden\<close> for
  \<^verbatim>\<open>document.visibilityState === "hidden"\<close>, and the listener, which is registered only
  when \<^verbatim>\<open>config.openWhenHidden === false\<close>.
\<close>

definition onVisibilityChange ::
  "FetchEventSourceConfig \<Rightarrow> string \<Rightarrow> bool \<Rightarrow> session \<Rightarrow> session" where
  "onVisibilityChange config input isHidden s =
     (let s = s\<lparr>hidden := isHidden\<rparr>
      in if hidden s then (abort (abortController s) s)\<lparr>readyState := CLOSED\<rparr>
         else if explicitlyOpen s = True then open_call config input s else s)"

definition visibilitychange ::
  "FetchEventSourceConfig \<Rightarrow> string \<Rightarrow> bool \<Rightarrow> session \<Rightarrow> session" where
  "visibilitychange config input isHidden s =
     (if openWhenHidden config = Some False then onVisibilityChange config input isHidden s
      else s)"

section \<open>Runs of a mounted session\<close>

text \<open>
  What can happen to a session mounted with one configuration: the caller calls
  \<^verbatim>\<open>open\<close> or \<^verbatim>\<open>close\<close>, a pending timer fires, the stream reader of an exchange
  delivers its response, a frame, the end of the stream or a failure, the promise of the
  caller's \<^verbatim>\<open>onOpen\<close> settles, or the visibility of the document changes.

  The reader is the hook's collaborator. Its contract, as the hook uses it: it calls
  \<^verbatim>\<open>onopen\<close> with the response, then \<^verbatim>\<open>onmessage\<close> per frame, then \<^verbatim>\<open>onclose\<close>; an error
  reaches \<^verbatim>\<open>onerror\<close>, which rethrows, so the reader's promise rejects and the
  \<^verbatim>\<open>.catch\<close> handler runs; once the signal is aborted it calls nothing and reports no
  error. A continuation of \<^verbatim>\<open>onopen\<close> that is already suspended at its \<^verbatim>\<open>await\<close> is
  the hook's own code: it runs when the promise settles, aborted signal or not.
\<close>

datatype occurrence =
    CallsOpen
  | CallsClose
  | TimerFires nat
  | ResponseArrives nat Response
  | OnOpenSettles nat
  | FrameArrives nat FetchEventSourceMessage
  | RemoteCloses nat
  | TransportFails nat thrown
  | VisibilityChanges bool

definition set_phase :: "nat \<Rightarrow> phase \<Rightarrow> session \<Rightarrow> session" where
  "set_phase c p s = s\<lparr>exchanges := (exchanges s)[c := (exchanges s ! c)\<lparr>phase := p\<rparr>]\<rparr>"

definition in_phase :: "nat \<Rightarrow> phase \<Rightarrow> session \<Rightarrow> bool" where
  "in_phase c p s = (c < length (exchanges s) \<and> phase (exchanges s ! c) = p)"

definition aborted :: "nat \<Rightarrow> session \<Rightarrow> bool" where
  "aborted c s = (c < length (exchanges s) \<and> signal_aborted (exchanges s ! c))"

text \<open>The reader's promise of exchange \<open>c\<close> rejects with \<open>err\<close>.\<close>

definition rejects :: "FetchEventSourceConfig \<Rightarrow> nat \<Rightarrow> thrown \<Rightarrow> session \<Rightarrow> session" where
  "rejects config c err s = oncatch config err (set_phase c Finished s)"

fun fire :: "FetchEventSourceConfig \<Rightarrow> string \<Rightarrow> timer_handler \<Rightarrow> session \<Rightarrow> session" where
  "fire config input OpenHandler s = open_call config input s"

text \<open>One occurrence; \<open>None\<close> when it cannot happen in this state.\<close>

fun step :: "FetchEventSourceConfig \<Rightarrow> string \<Rightarrow> occurrence \<Rightarrow> session \<Rightarrow> session option" where
  "step config input CallsOpen s = Some (open_call config input s)"
| "step config input CallsClose s = Some (close_call s)"
| "step config input (TimerFires t) s =
     (case find (\<lambda>timer. fst timer = t) (timers s) of
        None \<Rightarrow> None
      | Some timer \<Rightarrow> Some (fire config input (fst (snd timer)) (clearTimeout t s)))"
| "step config input (ResponseArrives c response) s =
     (if in_phase c Fetching s \<and> \<not> aborted c s then
        (case onopen_begin config response s of
           Inl e \<Rightarrow> Some (rejects config c e s)
         | Inr awaited \<Rightarrow>
             (case onOpen config of
                Some f \<Rightarrow> Some (set_phase c (AwaitingOnOpen (fst awaited)) (snd awaited))
              | None \<Rightarrow>
                  (case onopen_resume (fst awaited) (snd awaited) of
                     Inl e \<Rightarrow> Some (rejects config c e (snd awaited))
                   | Inr s' \<Rightarrow> Some (set_phase c Streaming s'))))
      else None)"
| "step config input (OnOpenSettles c) s =
     (if c < length (exchanges s) then
        (case phase (exchanges s ! c) of
           AwaitingOnOpen outcome \<Rightarrow>
             (case onopen_resume outcome s of
                Inl e \<Rightarrow>
                  Some (if aborted c s then set_phase c Finished s else rejects config c e s)
              | Inr s' \<Rightarrow>
                  Some (set_phase c (if aborted c s then Finished else Streaming) s'))
         | _ \<Rightarrow> None)
      else None)"
| "step config input (FrameArrives c ev) s =
     (if in_phase c Streaming s \<and> \<not> aborted c s then Some (onmessage config ev s) else None)"
| "step config input (RemoteCloses c) s =
     (if in_phase c Streaming s \<and> \<not> aborted c s
      then Some (onclose config (set_phase c Finished s)) else None)"
| "step config input (TransportFails c err) s =
     (if (in_phase c Fetching s \<or> in_phase c Streaming s) \<and> \<not> aborted c s
      then Some (rejects config c err s) else None)"
| "step config input (VisibilityChanges isHidden) s =
     Some (visibilitychange config input isHidden s)"

fun run :: "FetchEventSourceConfig \<Rightarrow> string \<Rightarrow> occurrence list \<Rightarrow> session \<Rightarrow> session option" where
  "run config input [] s = Some s"
| "run config input (occ # occs) s =
     (case step config input occ s of
        None \<Rightarrow> None
      | Some s' \<Rightarrow> run config input occs s')"

section \<open>Notions of the specification\<close>

text \<open>
  Two strings are equal up to case when their lower-case forms are equal; the response
  an open error carries.
\<close>

definition equals_ignoring_case :: "string \<Rightarrow> string \<Rightarrow> bool" where
  "equals_ignoring_case a b = (toLowerCase a = toLowerCase b)"

definition response_of :: "thrown \<Rightarrow> Response option" where
  "response_of err =
     (case err of
        FetchEventSourceOpenError message response \<Rightarrow> Some response
      | Error message \<Rightarrow> None
      | Falsy v \<Rightarrow> None)"

text \<open>What a run is observed by: state, intent, pending timer handles, exchanges started.\<close>

definition snapshot :: "session \<Rightarrow> FetchEventSourceState \<times> bool \<times> nat list \<times> nat" where
  "snapshot s = (readyState s, explicitlyOpen s, map fst (timers s), length (exchanges s))"

text \<open>The signals of the exchanges started so far: which of them are aborted.\<close>

definition signals :: "session \<Rightarrow> bool list" where
  "signals s = map signal_aborted (exchanges s)"

section \<open>Invariants of runs\<close>

text \<open>
  An exchange is settled when its reader will call the hook no more: its signal is
  aborted or its promise has settled.
\<close>

definition settled :: "exchange \<Rightarrow> bool" where
  "settled e = (signal_aborted e \<or> phase e = Finished)"

text \<open>
  At most one exchange is in flight: only the exchange started last can be unsettled,
  and then the session is not \<open>CLOSED\<close>; the controller in the ref is that of the
  exchange started last.
\<close>

definition single_flight :: "session \<Rightarrow> bool" where
  "single_flight s =
     ((\<forall>c < length (exchanges s).
         settled (exchanges s ! c) \<or> (Suc c = length (exchanges s) \<and> readyState s \<noteq> CLOSED))
      \<and> abortController s =
          (if exchanges s = [] then None else Some (length (exchanges s) - 1)))"

text \<open>Nothing is left that could reconnect: no intent, no timer, no exchange in flight.\<close>

definition quiescent :: "session \<Rightarrow> bool" where
  "quiescent s =
     (\<not> explicitlyOpen s \<and> timers s = [] \<and>
      (\<forall>c < length (exchanges s). settled (exchanges s ! c)))"

text \<open>
  A session that is not \<open>CLOSED\<close> is explicitly open, and no exchange waits for a
  promise of the caller's \<^verbatim>\<open>onOpen\<close>.
\<close>

definition never_suspended :: "session \<Rightarrow> bool" where
  "never_suspended s =
     ((readyState s = CLOSED \<or> explicitlyOpen s) \<and>
      list_all (\<lambda>e. phase e = Fetching \<or> phase e = Streaming \<or> phase e = Finished) (exchanges s))"

text \<open>
  Timer handles, pending or stored, are positive and below the next handle; the last
  event id is never the empty string.
\<close>

definition wellformed :: "session \<Rightarrow> bool" where
  "wellformed s =
     (0 < nextTimerId s
      \<and> list_all (\<lambda>timer. 0 < fst timer \<and> fst timer < nextTimerId s) (timers s)
      \<and> (case retryTimeoutId s of None \<Rightarrow> True | Some t \<Rightarrow> 0 < t \<and> t < nextTimerId s)
      \<and> lastEventId s \<noteq> Some '''')"

section \<open>Concrete configurations, responses and sessions\<close>

definition plain_config :: FetchEventSourceConfig where
  "plain_config =
     \<lparr>fetchRequestInit = None, openWhenHidden = None, initiallyOpen = None,
      defaultRetryInterval = None, onOpen = None, onEventMessage = None, onClose = None,
      onError = None\<rparr>"

definition accept_any :: "Response \<Rightarrow> thrown option" where
  "accept_any response = None"

definition never_retry :: "thrown \<Rightarrow> nat \<Rightarrow> RetryDecision" where
  "never_retry err retries = DoNotRetry"

definition accepting_config :: FetchEventSourceConfig where
  "accepting_config = plain_config\<lparr>onOpen := Some accept_any\<rparr>"

definition refusing_config :: FetchEventSourceConfig where
  "refusing_config = plain_config\<lparr>onError := Some never_retry\<rparr>"

text \<open>The configuration of the repository's visibility test.\<close>

definition gated_config :: FetchEventSourceConfig where
  "gated_config = plain_config\<lparr>openWhenHidden := Some False, initiallyOpen := Some False\<rparr>"

definition bearer_config :: FetchEventSourceConfig where
  "bearer_config =
     plain_config
       \<lparr>fetchRequestInit :=
          Some \<lparr>headers = Some [(''Authorization'', ''Bearer t'')],
                rest = [(''method'', ''POST'')]\<rparr>\<rparr>"

definition resuming_config :: FetchEventSourceConfig where
  "resuming_config =
     plain_config
       \<lparr>fetchRequestInit :=
          Some \<lparr>headers = Some [(''Last-Event-ID'', ''mine'')], rest = []\<rparr>\<rparr>"

text \<open>
  Two configurations that differ in a request option: \<^verbatim>\<open>{method: "POST"}\<close> and
  \<^verbatim>\<open>{body: "POST"}\<close>.
\<close>

definition method_config :: FetchEventSourceConfig where
  "method_config =
     plain_config
       \<lparr>fetchRequestInit := Some \<lparr>headers = None, rest = [(''method'', ''POST'')]\<rparr>\<rparr>"

definition body_config :: FetchEventSourceConfig where
  "body_config =
     plain_config
       \<lparr>fetchRequestInit := Some \<lparr>headers = None, rest = [(''body'', ''POST'')]\<rparr>\<rparr>"

text \<open>
  A caller whose \<^verbatim>\<open>onOpen\<close> rejects without a reason, as \<^verbatim>\<open>Promise.reject()\<close> does, and
  whose \<^verbatim>\<open>onError\<close> always returns \<^verbatim>\<open>false\<close>.
\<close>

definition reject_undefined :: "Response \<Rightarrow> thrown option" where
  "reject_undefined response = Some (Falsy JsUndefined)"

definition rejecting_config :: FetchEventSourceConfig where
  "rejecting_config =
     plain_config\<lparr>onOpen := Some reject_undefined, onError := Some never_retry\<rparr>"

definition ok_response :: Response where
  "ok_response = \<lparr>ok = True, status = 200, content_type = Some ''text/event-stream''\<rparr>"

definition mixed_case_response :: Response where
  "mixed_case_response = \<lparr>ok = True, status = 200, content_type = Some ''Text/Event-Stream''\<rparr>"

definition html_response :: Response where
  "html_response = \<lparr>ok = True, status = 200, content_type = Some ''text/html''\<rparr>"

text \<open>The frame of the specification's scenario.\<close>

definition frame_a1 :: FetchEventSourceMessage where
  "frame_a1 = \<lparr>id' = ''a1'', event = ''e'', data = ''d'', retry = Some 2000\<rparr>"

text \<open>A session that is open and has received \<open>frame_a1\<close>.\<close>

definition streaming_session :: session where
  "streaming_session =
     \<lparr>abortController = Some 0, lastEventId = Some ''a1'', retryTimeoutId = None,
      explicitlyOpen = True, errorRetries = 0, retryInterval = 2000, hidden = False,
      readyState = OPEN, eventMessage = Some frame_a1,
      exchanges = [\<lparr>ex_input = ''/sse'', ex_headers = Map.empty, ex_init = Map.empty,
                     signal_aborted = False, phase = Streaming\<rparr>],
      timers = [], nextTimerId = 1, calls = []\<rparr>"

text \<open>The same session after the server ended the stream: timer 1 is pending.\<close>

definition retrying_session :: session where
  "retrying_session =
     \<lparr>abortController = Some 0, lastEventId = Some ''a1'', retryTimeoutId = Some 1,
      explicitlyOpen = True, errorRetries = 0, retryInterval = 2000, hidden = False,
      readyState = CLOSED, eventMessage = Some frame_a1,
      exchanges = [\<lparr>ex_input = ''/sse'', ex_headers = Map.empty, ex_init = Map.empty,
                     signal_aborted = False, phase = Finished\<rparr>],
      timers = [(1, OpenHandler, 2000)], nextTimerId = 2, calls = []\<rparr>"

text \<open>A session on its third attempt to connect, after two transport failures.\<close>

definition connecting_session :: session where
  "connecting_session =
     \<lparr>abortController = Some 2, lastEventId = None, retryTimeoutId = Some 2,
      explicitlyOpen = True, errorRetries = 2, retryInterval = 1000, hidden = False,
      readyState = CONNECTING, eventMessage = None,
      exchanges = [\<lparr>ex_input = ''/sse'', ex_headers = Map.empty, ex_init = Map.empty,
                     signal_aborted = False, phase = Finished\<rparr>,
                   \<lparr>ex_input = ''/sse'', ex_headers = Map.empty, ex_init = Map.empty,
                     signal_aborted = False, phase = Finished\<rparr>,
                   \<lparr>ex_input = ''/sse'', ex_headers = Map.empty, ex_init = Map.empty,
                     signal_aborted = False, phase = Fetching\<rparr>],
      timers = [], nextTimerId = 3, calls = []\<rparr>"

text \<open>
  A session whose caller called \<^verbatim>\<open>close\<close> while the promise of the caller's
  \<^verbatim>\<open>onOpen\<close> was pending, after the promise has resolved.
\<close>

definition closed_while_validating :: session where
  "closed_while_validating =
     \<lparr>abortController = Some 0, lastEventId = None, retryTimeoutId = None,
      explicitlyOpen = False, errorRetries = 0, retryInterval = 1000, hidden = False,
      readyState = OPEN, eventMessage = None,
      exchanges = [\<lparr>ex_input = ''/sse'', ex_headers = Map.empty, ex_init = Map.empty,
                     signal_aborted = True, phase = Finished\<rparr>],
      timers = [], nextTimerId = 1, calls = [OnOpenCall ok_response]\<rparr>"

text \<open>
  The session with timer 1 pending, after the caller has called \<^verbatim>\<open>open\<close>: it is
  connecting, and the timer is still pending.
\<close>

definition reconnecting_session :: session where
  "reconnecting_session =
     \<lparr>abortController = Some 1, lastEventId = Some ''a1'', retryTimeoutId = Some 1,
      explicitlyOpen = True, errorRetries = 0, retryInterval = 2000, hidden = False,
      readyState = CONNECTING, eventMessage = Some frame_a1,
      exchanges = [\<lparr>ex_input = ''/sse'', ex_headers = Map.empty, ex_init = Map.empty,
                     signal_aborted = False, phase = Finished\<rparr>,
                   \<lparr>ex_input = ''/sse'', ex_headers = [''Last-Event-ID'' \<mapsto> ''a1''],
                     ex_init = Map.empty, signal_aborted = False, phase = Fetching\<rparr>],
      timers = [(1, OpenHandler, 2000)], nextTimerId = 2, calls = []\<rparr>"

text \<open>A session of \<open>gated_config\<close> that was open when the document became hidden.\<close>

definition suspended_session :: session where
  "suspended_session =
     \<lparr>abortController = Some 0, lastEventId = None, retryTimeoutId = None,
      explicitlyOpen = True, errorRetries = 0, retryInterval = 1000, hidden = True,
      readyState = CLOSED, eventMessage = None,
      exchanges = [\<lparr>ex_input = ''/sse'', ex_headers = Map.empty, ex_init = Map.empty,
                     signal_aborted = True, phase = Streaming\<rparr>],
      timers = [], nextTimerId = 1, calls = []\<rparr>"

text \<open>
  Two streams that the server ends, the second opened by the caller before the retry
  timer of the first has fired.
\<close>

definition two_closed_streams :: "occurrence list" where
  "two_closed_streams =
     [ResponseArrives 0 ok_response, RemoteCloses 0, CallsOpen,
      ResponseArrives 1 ok_response, RemoteCloses 1]"

section \<open>The handlers, unfolded\<close>

lemmas hook_defs =
  mount_def initial_def effect_body_def effect_cleanup_def reconfigure_def startStream_def
  requestHeaders_def header_entries_def rest_entries_def headers_of_def rest_of_def
  open_call_def close_call_def abort_def
  clearRetryTimeout_def clearTimeout_def setTimeout_def handleRetry_def onclose_def oncatch_def
  onmessage_def onopen_def onopen_begin_def onopen_resume_def onVisibilityChange_def
  visibilitychange_def DefaultRetryInterval_def

lemmas run_defs = in_phase_def aborted_def set_phase_def rejects_def

lemmas example_defs =
  plain_config_def accept_any_def never_retry_def accepting_config_def refusing_config_def
  gated_config_def bearer_config_def resuming_config_def ok_response_def
  mixed_case_response_def html_response_def frame_a1_def streaming_session_def
  retrying_session_def connecting_session_def closed_while_validating_def
  suspended_session_def method_config_def body_config_def reject_undefined_def
  rejecting_config_def reconnecting_session_def

lemma abort_length: "length (exchanges (abort controller s)) = length (exchanges s)"
  by (simp add: abort_def split: option.splits)

lemma abort_keeps_requests:
  "map ex_input (exchanges (abort controller s)) = map ex_input (exchanges s)
   \<and> map ex_headers (exchanges (abort controller s)) = map ex_headers (exchanges s)
   \<and> map ex_init (exchanges (abort controller s)) = map ex_init (exchanges s)"
proof (cases controller)
  case None
  then show ?thesis by (simp add: abort_def)
next
  case (Some c)
  show ?thesis
  proof (cases "c < length (exchanges s)")
    case True
    then show ?thesis
      using Some by (simp add: abort_def map_update list_update_same_conv)
  next
    case False
    then show ?thesis
      using Some by (simp add: abort_def list_update_beyond)
  qed
qed

lemma open_call_eq:
  "open_call config input s =
     (if readyState s = CLOSED
      then s\<lparr>abortController := Some (length (exchanges s)), explicitlyOpen := True,
              readyState := CONNECTING,
              exchanges := exchanges s @
                [\<lparr>ex_input = input, ex_headers = requestHeaders config s,
                  ex_init = rest_of config, signal_aborted = False, phase = Fetching\<rparr>]\<rparr>
      else s\<lparr>explicitlyOpen := True\<rparr>)"
  by (simp add: open_call_def startStream_def requestHeaders_def Let_def)

lemma requestHeaders_lookup:
  "requestHeaders config s name =
     (case (case headers_of config of None \<Rightarrow> None | Some h \<Rightarrow> h name) of
        Some v \<Rightarrow> Some v
      | None \<Rightarrow>
          (case lastEventId s of
             None \<Rightarrow> None
           | Some i \<Rightarrow> if name = ''Last-Event-ID'' \<and> i \<noteq> '''' then Some i else None))"
  by (simp add: requestHeaders_def map_add_def split: option.splits)

lemma close_call_eq:
  "close_call s =
     s\<lparr>explicitlyOpen := False,
       exchanges := exchanges (abort (abortController s) s),
       timers := filter (\<lambda>timer. Some (fst timer) \<noteq> retryTimeoutId s) (timers s),
       retryTimeoutId := None,
       readyState := CLOSED\<rparr>"
  by (cases "abortController s"; cases "retryTimeoutId s")
     (simp_all add: close_call_def abort_def clearRetryTimeout_def clearTimeout_def Let_def)

lemma effect_cleanup_eq:
  "effect_cleanup s =
     s\<lparr>exchanges := exchanges (abort (abortController s) s),
       timers := filter (\<lambda>timer. Some (fst timer) \<noteq> retryTimeoutId s) (timers s),
       retryTimeoutId := None\<rparr>"
  by (cases "abortController s"; cases "retryTimeoutId s")
     (simp_all add: effect_cleanup_def abort_def clearRetryTimeout_def clearTimeout_def)

lemma onclose_eq:
  "onclose config s =
     (case onClose config of
        None \<Rightarrow>
          s\<lparr>readyState := CLOSED,
            timers := timers s @ [(nextTimerId s, OpenHandler, retryInterval s)],
            nextTimerId := Suc (nextTimerId s),
            retryTimeoutId := Some (nextTimerId s)\<rparr>
      | Some policy \<Rightarrow>
          (case policy () of
             DoNotRetry \<Rightarrow> s\<lparr>readyState := CLOSED, calls := calls s @ [OnCloseCall]\<rparr>
           | RetryAfter ms \<Rightarrow>
               s\<lparr>readyState := CLOSED, calls := calls s @ [OnCloseCall],
                 timers := timers s @ [(nextTimerId s, OpenHandler, ms)],
                 nextTimerId := Suc (nextTimerId s),
                 retryTimeoutId := Some (nextTimerId s)\<rparr>))"
  by (simp add: onclose_def handleRetry_def setTimeout_def Let_def
           split: option.splits RetryDecision.splits)

lemma oncatch_refused:
  assumes "truthy err"
    and "onError config = Some policy" and "policy err (errorRetries s) = DoNotRetry"
  shows "oncatch config err s =
     s\<lparr>timers := filter (\<lambda>timer. Some (fst timer) \<noteq> retryTimeoutId s) (timers s),
       retryTimeoutId := None, readyState := CLOSED,
       calls := calls s @ [OnErrorCall err (errorRetries s)]\<rparr>"
  using assms
  by (cases "retryTimeoutId s")
     (simp_all add: oncatch_def handleRetry_def clearRetryTimeout_def clearTimeout_def Let_def)

lemma oncatch_errorRetries:
  "errorRetries (oncatch config err s) =
     (if truthy err
         \<and> map_option (\<lambda>policy. policy err (errorRetries s)) (onError config)
             \<noteq> Some DoNotRetry
      then errorRetries s + 1 else errorRetries s)"
  by (cases "retryTimeoutId s")
     (simp_all add: oncatch_def handleRetry_def clearRetryTimeout_def clearTimeout_def
        setTimeout_def Let_def split: option.splits RetryDecision.splits)

lemma toLowerCase_event_stream: "toLowerCase ''text/event-stream'' = ''text/event-stream''"
  by (simp add: toLowerCase_def toLowerCase_char_def)

text \<open>The concrete sessions are sessions that runs of the hook reach.\<close>

lemma streaming_session_reached:
  "run plain_config ''/sse'' [ResponseArrives 0 ok_response, FrameArrives 0 frame_a1]
     (mount plain_config ''/sse'') = Some streaming_session"
  by (simp add: example_defs hook_defs run_defs toLowerCase_def toLowerCase_char_def Let_def)

lemma retrying_session_reached:
  "run plain_config ''/sse''
     [ResponseArrives 0 ok_response, FrameArrives 0 frame_a1, RemoteCloses 0]
     (mount plain_config ''/sse'') = Some retrying_session"
  by (simp add: example_defs hook_defs run_defs toLowerCase_def toLowerCase_char_def Let_def)

lemma reconnecting_session_reached:
  "run plain_config ''/sse''
     [ResponseArrives 0 ok_response, FrameArrives 0 frame_a1, RemoteCloses 0, CallsOpen]
     (mount plain_config ''/sse'') = Some reconnecting_session"
  by (simp add: example_defs hook_defs run_defs toLowerCase_def toLowerCase_char_def Let_def)

lemma connecting_session_reached:
  "run plain_config ''/sse''
     [TransportFails 0 (Error ''network''), TimerFires 1,
      TransportFails 1 (Error ''network''), TimerFires 2]
     (mount plain_config ''/sse'') = Some connecting_session"
  by (simp add: example_defs hook_defs run_defs Let_def)

lemma closed_while_validating_reached:
  "run accepting_config ''/sse'' [ResponseArrives 0 ok_response, CallsClose, OnOpenSettles 0]
     (mount accepting_config ''/sse'') = Some closed_while_validating"
  by (simp add: example_defs hook_defs run_defs Let_def)

lemma suspended_session_reached:
  "run gated_config ''/sse'' [CallsOpen, ResponseArrives 0 ok_response, VisibilityChanges True]
     (mount gated_config ''/sse'') = Some suspended_session"
  by (simp add: example_defs hook_defs run_defs toLowerCase_def toLowerCase_char_def Let_def)

section \<open>The invariants hold along every run\<close>

text \<open>What each handler leaves alone.\<close>

lemma handleRetry_frame:
  "exchanges (handleRetry config err s) = exchanges s
   \<and> abortController (handleRetry config err s) = abortController s
   \<and> readyState (handleRetry config err s) = readyState s
   \<and> explicitlyOpen (handleRetry config err s) = explicitlyOpen s"
  by (simp add: handleRetry_def setTimeout_def Let_def split: option.splits RetryDecision.splits)

lemma clearRetryTimeout_frame:
  "exchanges (clearRetryTimeout s) = exchanges s
   \<and> abortController (clearRetryTimeout s) = abortController s
   \<and> readyState (clearRetryTimeout s) = readyState s
   \<and> explicitlyOpen (clearRetryTimeout s) = explicitlyOpen s"
  by (simp add: clearRetryTimeout_def clearTimeout_def split: option.splits)

lemma onclose_frame:
  "exchanges (onclose config s) = exchanges s
   \<and> abortController (onclose config s) = abortController s
   \<and> readyState (onclose config s) = CLOSED
   \<and> explicitlyOpen (onclose config s) = explicitlyOpen s"
  by (simp add: onclose_def handleRetry_frame)

lemma oncatch_frame:
  "exchanges (oncatch config err s) = exchanges s
   \<and> abortController (oncatch config err s) = abortController s
   \<and> readyState (oncatch config err s) = CLOSED
   \<and> explicitlyOpen (oncatch config err s) = explicitlyOpen s"
  by (simp add: oncatch_def handleRetry_frame clearRetryTimeout_frame)

lemma onmessage_frame:
  "exchanges (onmessage config ev s) = exchanges s
   \<and> abortController (onmessage config ev s) = abortController s
   \<and> readyState (onmessage config ev s) = readyState s
   \<and> explicitlyOpen (onmessage config ev s) = explicitlyOpen s
   \<and> timers (onmessage config ev s) = timers s"
  by (simp add: onmessage_def Let_def split: option.splits)

lemma set_phase_frame:
  "exchanges (set_phase c p s) = (exchanges s)[c := (exchanges s ! c)\<lparr>phase := p\<rparr>]
   \<and> abortController (set_phase c p s) = abortController s
   \<and> readyState (set_phase c p s) = readyState s
   \<and> explicitlyOpen (set_phase c p s) = explicitlyOpen s
   \<and> timers (set_phase c p s) = timers s"
  by (simp add: set_phase_def)

subsection \<open>At most one exchange in flight\<close>

text \<open>
  \<open>single_flight\<close> holds after the mount and is kept by every occurrence: an exchange
  is started only in a \<open>CLOSED\<close> session, where all exchanges are settled, and a
  callback of the reader settles the exchange in flight whenever it closes the session.
\<close>

lemma single_flight_open:
  assumes "single_flight s"
  shows "single_flight (open_call config input s)"
  using assms
  by (auto simp: single_flight_def open_call_eq nth_append settled_def)

lemma single_flight_close:
  assumes "single_flight s"
  shows "single_flight (close_call s)"
  using assms
  by (auto simp: single_flight_def close_call_eq abort_def settled_def nth_list_update
      split: option.splits if_splits)

lemma fire_eq: "fire config input handler s = open_call config input s"
  by (cases handler) simp

lemma single_flight_settle:
  assumes inv: "single_flight s" and c: "c < length (exchanges s)"
    and live: "\<not> settled (exchanges s ! c)"
    and xs: "exchanges s' = (exchanges s)[c := e]" and e: "settled e"
    and ac: "abortController s' = abortController s"
  shows "single_flight s'"
proof -
  have last: "Suc c = length (exchanges s)"
    using inv c live by (auto simp: single_flight_def)
  have "settled (exchanges s' ! ca)" if "ca < length (exchanges s')" for ca
  proof (cases "ca = c")
    case True
    then show ?thesis using c e xs by simp
  next
    case False
    then have "Suc ca \<noteq> length (exchanges s)" using last by simp
    then have "settled (exchanges s ! ca)"
      using inv that xs by (auto simp: single_flight_def)
    then show ?thesis using False xs by simp
  qed
  then show ?thesis
    using inv xs ac by (auto simp: single_flight_def)
qed

lemma single_flight_keep:
  assumes inv: "single_flight s"
    and xs: "exchanges s' = (exchanges s)[c := e]"
    and e: "settled (exchanges s ! c) \<longrightarrow> settled e"
    and ac: "abortController s' = abortController s"
    and rs: "readyState s' \<noteq> CLOSED \<or> readyState s' = readyState s"
  shows "single_flight s'"
proof -
  have "settled (exchanges s' ! ca) \<or> (Suc ca = length (exchanges s') \<and> readyState s' \<noteq> CLOSED)"
    if "ca < length (exchanges s')" for ca
  proof -
    have ca: "ca < length (exchanges s)" using that xs by simp
    then have old: "settled (exchanges s ! ca) \<or> (Suc ca = length (exchanges s) \<and> readyState s \<noteq> CLOSED)"
      using inv by (auto simp: single_flight_def)
    show ?thesis
    proof (cases "ca = c")
      case True
      then show ?thesis using old ca xs e rs by auto
    next
      case False
      then show ?thesis using old xs rs by auto
    qed
  qed
  then show ?thesis
    using inv xs ac by (auto simp: single_flight_def)
qed

lemma single_flight_step:
  assumes "single_flight s" and "step config input occ s = Some s'"
  shows "single_flight s'"
proof (cases occ)
  case CallsOpen
  then show ?thesis using assms by (auto simp: single_flight_open)
next
  case CallsClose
  then show ?thesis using assms by (auto simp: single_flight_close)
next
  case (TimerFires t)
  have "single_flight (clearTimeout t s)"
    using assms(1) by (simp add: single_flight_def clearTimeout_def)
  then show ?thesis
    using TimerFires assms(2)
    by (cases "find (\<lambda>timer. fst timer = t) (timers s)")
       (auto simp: single_flight_open fire_eq)
next
  case (ResponseArrives c response)
  then have c: "c < length (exchanges s)" and live: "\<not> settled (exchanges s ! c)"
    using assms(2) by (auto simp: in_phase_def aborted_def settled_def split: if_splits)
  have fails: "single_flight (rejects config c e s1)"
    if "exchanges s1 = exchanges s" and "abortController s1 = abortController s" for e s1
    by (rule single_flight_settle [OF assms(1) c live, where e = "(exchanges s ! c)\<lparr>phase := Finished\<rparr>"])
       (simp_all add: rejects_def oncatch_frame set_phase_frame settled_def that)
  have goes_on: "single_flight (set_phase c p s1)"
    if "exchanges s1 = exchanges s" and "abortController s1 = abortController s"
      and "readyState s1 \<noteq> CLOSED \<or> readyState s1 = readyState s" for p s1
    by (rule single_flight_keep [OF assms(1), where c = c and e = "(exchanges s ! c)\<lparr>phase := p\<rparr>"])
       (use live that in \<open>simp_all add: set_phase_frame\<close>)
  show ?thesis
    using ResponseArrives assms(2) fails [of s] goes_on
    by (auto simp: onopen_begin_def onopen_resume_def
        split: if_splits sum.splits option.splits)
next
  case (OnOpenSettles c)
  then obtain outcome where c: "c < length (exchanges s)"
      and ph: "phase (exchanges s ! c) = AwaitingOnOpen outcome"
    using assms(2) by (auto split: if_splits phase.splits)
  have finish: "single_flight (set_phase c Finished s1)"
    if "exchanges s1 = exchanges s" and "abortController s1 = abortController s"
      and "readyState s1 \<noteq> CLOSED \<or> readyState s1 = readyState s" for s1
    by (rule single_flight_keep [OF assms(1), where c = c and e = "(exchanges s ! c)\<lparr>phase := Finished\<rparr>"])
       (use that in \<open>simp_all add: set_phase_frame settled_def\<close>)
  have stream: "single_flight (set_phase c Streaming s1)"
    if "exchanges s1 = exchanges s" and "abortController s1 = abortController s"
      and "readyState s1 \<noteq> CLOSED" and "\<not> aborted c s" for s1
    by (rule single_flight_keep [OF assms(1), where c = c and e = "(exchanges s ! c)\<lparr>phase := Streaming\<rparr>"])
       (use that c ph in \<open>simp_all add: set_phase_frame settled_def aborted_def\<close>)
  have fails: "single_flight (rejects config c e s)" if "\<not> aborted c s" for e
    by (rule single_flight_settle [OF assms(1) c, where e = "(exchanges s ! c)\<lparr>phase := Finished\<rparr>"])
       (use that c ph in \<open>simp_all add: rejects_def oncatch_frame set_phase_frame settled_def aborted_def\<close>)
  show ?thesis
    using OnOpenSettles assms(2) c ph finish [of s] finish stream fails
    by (auto simp: onopen_resume_def split: if_splits option.splits)
next
  case (FrameArrives c ev)
  then show ?thesis
    using assms
    by (auto simp: single_flight_def onmessage_frame in_phase_def aborted_def settled_def
        split: if_splits)
next
  case (RemoteCloses c)
  then have c: "c < length (exchanges s)" and live: "\<not> settled (exchanges s ! c)"
    using assms(2) by (auto simp: in_phase_def aborted_def settled_def split: if_splits)
  have "single_flight (onclose config (set_phase c Finished s))"
    by (rule single_flight_settle [OF assms(1) c live, where e = "(exchanges s ! c)\<lparr>phase := Finished\<rparr>"])
       (simp_all add: onclose_frame set_phase_frame settled_def)
  then show ?thesis
    using RemoteCloses assms(2) by (auto split: if_splits)
next
  case (TransportFails c err)
  then have c: "c < length (exchanges s)" and live: "\<not> settled (exchanges s ! c)"
    using assms(2) by (auto simp: in_phase_def aborted_def settled_def split: if_splits)
  have "single_flight (rejects config c err s)"
    by (rule single_flight_settle [OF assms(1) c live, where e = "(exchanges s ! c)\<lparr>phase := Finished\<rparr>"])
       (simp_all add: rejects_def oncatch_frame set_phase_frame settled_def)
  then show ?thesis
    using TransportFails assms(2) by (auto split: if_splits)
next
  case (VisibilityChanges isHidden)
  have hide: "single_flight (onVisibilityChange config input True s)"
    using assms(1)
    by (auto simp: single_flight_def onVisibilityChange_def Let_def abort_def settled_def
          nth_list_update split: option.splits if_splits)
  have "single_flight (s\<lparr>hidden := False\<rparr>)"
    using assms(1) by (simp add: single_flight_def)
  then have unhide: "single_flight (onVisibilityChange config input False s)"
    by (simp add: onVisibilityChange_def Let_def single_flight_open)
  show ?thesis
    using VisibilityChanges assms hide unhide
    by (cases isHidden) (auto simp: visibilitychange_def split: if_splits)
qed

lemma single_flight_run:
  assumes "single_flight s" and "run config input occs s = Some s'"
  shows "single_flight s'"
  using assms
proof (induction occs arbitrary: s)
  case Nil
  then show ?case by simp
next
  case (Cons occ occs)
  then show ?case
    by (auto split: option.splits dest: single_flight_step)
qed

lemma single_flight_mount: "single_flight (mount config input)"
  by (simp add: single_flight_def mount_def effect_body_def startStream_def initial_def Let_def
        settled_def)

subsection \<open>After close\<close>

text \<open>
  When no timer but the stored one is pending, \<^verbatim>\<open>close()\<close> leaves a quiescent session,
  and a quiescent session stays so, with the same exchanges, until \<^verbatim>\<open>open()\<close> is called.
\<close>

lemma settled_abort:
  assumes "c < length (exchanges s)" and "settled (exchanges s ! c)"
  shows "settled (exchanges (abort controller s) ! c)"
proof (cases controller)
  case None
  then show ?thesis using assms by (simp add: abort_def)
next
  case (Some a)
  then show ?thesis
    using assms by (cases "a = c") (simp_all add: abort_def settled_def)
qed

lemma settled_finish:
  assumes "ca < length xs" and "settled (xs ! ca)"
  shows "settled (xs[c := (xs ! c)\<lparr>phase := Finished\<rparr>] ! ca)"
  using assms by (cases "c = ca") (simp_all add: settled_def)

lemma onVisibilityChange_hide:
  "onVisibilityChange config input True s =
     s\<lparr>hidden := True, exchanges := exchanges (abort (abortController s) s),
       readyState := CLOSED\<rparr>"
  by (simp add: onVisibilityChange_def Let_def abort_def split: option.splits)

lemma onVisibilityChange_show:
  "onVisibilityChange config input False s =
     (if explicitlyOpen s then open_call config input (s\<lparr>hidden := False\<rparr>)
      else s\<lparr>hidden := False\<rparr>)"
  by (simp add: onVisibilityChange_def Let_def)

lemma quiescent_close:
  assumes inv: "single_flight s"
    and stored: "\<forall>timer \<in> set (timers s). retryTimeoutId s = Some (fst timer)"
  shows "quiescent (close_call s)"
proof -
  have "settled (exchanges (abort (abortController s) s) ! c)" if "c < length (exchanges s)" for c
  proof (cases "Suc c = length (exchanges s)")
    case True
    then have "abortController s = Some c"
      using inv by (auto simp: single_flight_def)
    then show ?thesis
      using that by (simp add: abort_def settled_def)
  next
    case False
    then have "settled (exchanges s ! c)"
      using inv that by (auto simp: single_flight_def)
    then show ?thesis
      using that by (simp add: settled_abort)
  qed
  moreover have "filter (\<lambda>timer. Some (fst timer) \<noteq> retryTimeoutId s) (timers s) = []"
    using stored by (auto simp: filter_empty_conv)
  ultimately show ?thesis
    by (simp add: quiescent_def close_call_eq abort_length)
qed

lemma quiescent_step:
  assumes q: "quiescent s" and occ: "occ \<noteq> CallsOpen"
    and step: "step config input occ s = Some s'"
  shows "quiescent s' \<and> length (exchanges s') = length (exchanges s)"
proof (cases occ)
  case CallsOpen
  then show ?thesis using occ by simp
next
  case CallsClose
  have "settled (exchanges (abort (abortController s) s) ! c)" if "c < length (exchanges s)" for c
    using q that by (simp add: quiescent_def settled_abort)
  then show ?thesis
    using CallsClose step q by (auto simp: quiescent_def close_call_eq abort_length)
next
  case (TimerFires t)
  then show ?thesis using step q by (simp add: quiescent_def)
next
  case (ResponseArrives c response)
  then show ?thesis
    using step q by (auto simp: quiescent_def in_phase_def aborted_def settled_def split: if_splits)
next
  case (OnOpenSettles c)
  then obtain outcome where c: "c < length (exchanges s)"
      and ph: "phase (exchanges s ! c) = AwaitingOnOpen outcome"
    using step by (auto split: if_splits phase.splits)
  then have ab: "aborted c s"
    using q by (auto simp: quiescent_def settled_def aborted_def)
  have "quiescent (set_phase c Finished s1) \<and> length (exchanges (set_phase c Finished s1)) = length (exchanges s)"
    if "exchanges s1 = exchanges s" and "timers s1 = timers s" and "explicitlyOpen s1 = explicitlyOpen s" for s1
    using q that by (simp add: quiescent_def set_phase_frame settled_finish)
  from this [of s] this [of "s\<lparr>readyState := OPEN, errorRetries := 0\<rparr>"] show ?thesis
    using OnOpenSettles step c ph ab
    by (auto simp: onopen_resume_def split: option.splits)
next
  case (FrameArrives c ev)
  then show ?thesis
    using step q by (auto simp: quiescent_def in_phase_def aborted_def settled_def split: if_splits)
next
  case (RemoteCloses c)
  then show ?thesis
    using step q by (auto simp: quiescent_def in_phase_def aborted_def settled_def split: if_splits)
next
  case (TransportFails c err)
  then show ?thesis
    using step q by (auto simp: quiescent_def in_phase_def aborted_def settled_def split: if_splits)
next
  case (VisibilityChanges isHidden)
  have "settled (exchanges (abort (abortController s) s) ! c)" if "c < length (exchanges s)" for c
    using q that by (simp add: quiescent_def settled_abort)
  then show ?thesis
    using VisibilityChanges step q
    by (cases isHidden)
       (auto simp: quiescent_def visibilitychange_def onVisibilityChange_hide
          onVisibilityChange_show abort_length split: if_splits)
qed

lemma quiescent_run:
  assumes "quiescent s" and "CallsOpen \<notin> set occs" and "run config input occs s = Some s'"
  shows "quiescent s' \<and> length (exchanges s') = length (exchanges s)"
  using assms
proof (induction occs arbitrary: s)
  case Nil
  then show ?case by simp
next
  case (Cons occ occs)
  then obtain s1 where s1: "step config input occ s = Some s1" and rest: "run config input occs s1 = Some s'"
    by (auto split: option.splits)
  have "quiescent s1 \<and> length (exchanges s1) = length (exchanges s)"
    using quiescent_step [OF Cons.prems(1) _ s1] Cons.prems(2) by auto
  then show ?case
    using Cons.IH [of s1] Cons.prems(2) rest by auto
qed

subsection \<open>Sessions without a caller's onOpen\<close>

text \<open>
  Without a caller's \<^verbatim>\<open>onOpen\<close> the function \<^verbatim>\<open>onopen\<close> never waits, and every session
  that is not \<open>CLOSED\<close> is explicitly open.
\<close>

lemma never_suspended_update:
  assumes "list_all (\<lambda>e. phase e = Fetching \<or> phase e = Streaming \<or> phase e = Finished) xs"
    and "phase e = Fetching \<or> phase e = Streaming \<or> phase e = Finished"
  shows "list_all (\<lambda>e. phase e = Fetching \<or> phase e = Streaming \<or> phase e = Finished) (xs[c := e])"
  using assms by (auto simp: list_all_iff dest!: set_update_subset_insert [THEN subsetD])

lemma never_suspended_abort:
  assumes "list_all (\<lambda>e. phase e = Fetching \<or> phase e = Streaming \<or> phase e = Finished) (exchanges s)"
  shows "list_all (\<lambda>e. phase e = Fetching \<or> phase e = Streaming \<or> phase e = Finished)
           (exchanges (abort controller s))"
proof (cases controller)
  case None
  then show ?thesis using assms by (simp add: abort_def)
next
  case (Some c)
  show ?thesis
  proof (cases "c < length (exchanges s)")
    case True
    then have "phase (exchanges s ! c) = Fetching \<or> phase (exchanges s ! c) = Streaming
        \<or> phase (exchanges s ! c) = Finished"
      using assms by (simp add: list_all_length)
    then show ?thesis
      using Some assms by (simp add: abort_def never_suspended_update)
  next
    case False
    then show ?thesis using Some assms by (simp add: abort_def list_update_beyond)
  qed
qed

lemma never_suspended_open:
  assumes "never_suspended s"
  shows "never_suspended (open_call config input s)"
  using assms by (simp add: never_suspended_def open_call_eq)

lemma never_suspended_step:
  assumes absent: "onOpen config = None" and inv: "single_flight s" and k: "never_suspended s"
    and step: "step config input occ s = Some s'"
  shows "never_suspended s'"
proof (cases occ)
  case CallsOpen
  then show ?thesis using step k by (auto simp: never_suspended_open)
next
  case CallsClose
  then show ?thesis
    using step k by (auto simp: never_suspended_def close_call_eq never_suspended_abort)
next
  case (TimerFires t)
  have "never_suspended (clearTimeout t s)"
    using k by (simp add: never_suspended_def clearTimeout_def)
  then show ?thesis
    using TimerFires step
    by (cases "find (\<lambda>timer. fst timer = t) (timers s)")
       (auto simp: never_suspended_open fire_eq)
next
  case (ResponseArrives c response)
  then have c: "c < length (exchanges s)" and live: "\<not> settled (exchanges s ! c)"
    using step by (auto simp: in_phase_def aborted_def settled_def split: if_splits)
  then have "readyState s \<noteq> CLOSED"
    using inv by (auto simp: single_flight_def)
  then have opened: "explicitlyOpen s"
    using k by (simp add: never_suspended_def)
  show ?thesis
    using ResponseArrives step absent k opened
    by (auto simp: never_suspended_def onopen_begin_def onopen_resume_def rejects_def
          oncatch_frame set_phase_frame never_suspended_update
        split: if_splits)
next
  case (OnOpenSettles c)
  then obtain outcome where c: "c < length (exchanges s)"
      and ph: "phase (exchanges s ! c) = AwaitingOnOpen outcome"
    using step by (auto split: if_splits phase.splits)
  then show ?thesis
    using k by (auto simp: never_suspended_def list_all_length)
next
  case (FrameArrives c ev)
  then show ?thesis
    using step k by (auto simp: never_suspended_def onmessage_frame split: if_splits)
next
  case (RemoteCloses c)
  then show ?thesis
    using step k
    by (auto simp: never_suspended_def onclose_frame set_phase_frame never_suspended_update
        split: if_splits)
next
  case (TransportFails c err)
  then show ?thesis
    using step k
    by (auto simp: never_suspended_def rejects_def oncatch_frame set_phase_frame
          never_suspended_update split: if_splits)
next
  case (VisibilityChanges isHidden)
  have "never_suspended (s\<lparr>hidden := False\<rparr>)"
    using k by (simp add: never_suspended_def)
  then have "never_suspended (open_call config input (s\<lparr>hidden := False\<rparr>))"
    by (rule never_suspended_open)
  then show ?thesis
    using VisibilityChanges step k
    by (cases isHidden)
       (auto simp: never_suspended_def visibilitychange_def onVisibilityChange_hide
          onVisibilityChange_show never_suspended_abort split: if_splits)
qed

lemma never_suspended_run:
  assumes "onOpen config = None" and "single_flight s" and "never_suspended s"
    and "run config input occs s = Some s'"
  shows "never_suspended s'"
  using assms(2-)
proof (induction occs arbitrary: s)
  case Nil
  then show ?case by simp
next
  case (Cons occ occs)
  then obtain s1 where s1: "step config input occ s = Some s1"
      and rest: "run config input occs s1 = Some s'"
    by (auto split: option.splits)
  show ?case
    using Cons.IH [OF single_flight_step [OF Cons.prems(1) s1]
        never_suspended_step [OF assms(1) Cons.prems(1,2) s1] rest] .
qed

lemma never_suspended_mount: "never_suspended (mount config input)"
  by (simp add: never_suspended_def mount_def effect_body_def startStream_def initial_def Let_def)

subsection \<open>Timer handles and the last event id\<close>

lemma wellformed_clearRetryTimeout:
  assumes "wellformed s"
  shows "wellformed (clearRetryTimeout s)"
  using assms
  by (auto simp: wellformed_def clearRetryTimeout_def clearTimeout_def list_all_iff
      split: option.splits)

lemma wellformed_handleRetry:
  assumes "wellformed s"
  shows "wellformed (handleRetry config err s)"
  using assms
  by (auto simp: wellformed_def handleRetry_def setTimeout_def Let_def list_all_iff
      split: option.splits RetryDecision.splits)

lemma wellformed_frame:
  assumes "wellformed s" and "nextTimerId s' = nextTimerId s" and "timers s' = timers s"
    and "retryTimeoutId s' = retryTimeoutId s" and "lastEventId s' = lastEventId s"
  shows "wellformed s'"
  using assms by (simp add: wellformed_def split: option.splits)

lemma wellformed_open:
  assumes "wellformed s"
  shows "wellformed (open_call config input s)"
  using assms by (rule wellformed_frame) (simp_all add: open_call_eq)

lemma wellformed_set_phase:
  assumes "wellformed s"
  shows "wellformed (set_phase c p s)"
  using assms by (rule wellformed_frame) (simp_all add: set_phase_def)

lemma wellformed_abort:
  assumes "wellformed s"
  shows "wellformed (abort controller s)"
  using assms by (rule wellformed_frame) (simp_all add: abort_def split: option.splits)

lemma wellformed_close:
  assumes "wellformed s"
  shows "wellformed (close_call s)"
  using assms by (auto simp: wellformed_def close_call_eq list_all_iff)

lemma wellformed_oncatch:
  assumes "wellformed s"
  shows "wellformed (oncatch config err s)"
proof -
  have "wellformed (s\<lparr>readyState := CLOSED\<rparr>)"
    using assms by (rule wellformed_frame) simp_all
  then show ?thesis
    by (simp add: oncatch_def wellformed_handleRetry wellformed_clearRetryTimeout)
qed

lemma wellformed_onclose:
  assumes "wellformed s"
  shows "wellformed (onclose config s)"
proof -
  have "wellformed (s\<lparr>readyState := CLOSED\<rparr>)"
    using assms by (rule wellformed_frame) simp_all
  then show ?thesis
    by (simp add: onclose_def wellformed_handleRetry)
qed

lemma wellformed_onmessage:
  assumes "wellformed s"
  shows "wellformed (onmessage config ev s)"
  using assms by (auto simp: wellformed_def onmessage_def Let_def split: option.splits)

lemma wellformed_step:
  assumes w: "wellformed s" and step: "step config input occ s = Some s'"
  shows "wellformed s'"
proof (cases occ)
  case CallsOpen
  then show ?thesis using step w by (auto simp: wellformed_open)
next
  case CallsClose
  then show ?thesis using step w by (auto simp: wellformed_close)
next
  case (TimerFires t)
  have "wellformed (clearTimeout t s)"
    using w by (auto simp: wellformed_def clearTimeout_def list_all_iff split: option.splits)
  then show ?thesis
    using TimerFires step
    by (cases "find (\<lambda>timer. fst timer = t) (timers s)") (auto simp: wellformed_open fire_eq)
next
  case (ResponseArrives c response)
  have "wellformed (s\<lparr>readyState := OPEN, errorRetries := 0\<rparr>)"
    using w by (rule wellformed_frame) simp_all
  moreover have "wellformed (s\<lparr>calls := calls s @ [OnOpenCall response]\<rparr>)"
    using w by (rule wellformed_frame) simp_all
  ultimately show ?thesis
    using ResponseArrives step w
    by (auto simp: onopen_begin_def onopen_resume_def rejects_def wellformed_oncatch
          wellformed_set_phase split: if_splits option.splits)
next
  case (OnOpenSettles c)
  have "wellformed (s\<lparr>readyState := OPEN, errorRetries := 0\<rparr>)"
    using w by (rule wellformed_frame) simp_all
  then show ?thesis
    using OnOpenSettles step w
    by (auto simp: onopen_resume_def rejects_def wellformed_oncatch wellformed_set_phase
        split: if_splits option.splits phase.splits)
next
  case (FrameArrives c ev)
  then show ?thesis using step w by (auto simp: wellformed_onmessage split: if_splits)
next
  case (RemoteCloses c)
  then show ?thesis
    using step w by (auto simp: wellformed_onclose wellformed_set_phase split: if_splits)
next
  case (TransportFails c err)
  then show ?thesis
    using step w by (auto simp: rejects_def wellformed_oncatch wellformed_set_phase split: if_splits)
next
  case (VisibilityChanges isHidden)
  have "wellformed (s\<lparr>hidden := h\<rparr>)" for h
    using w by (rule wellformed_frame) simp_all
  moreover have "wellformed ((abort (abortController s) (s\<lparr>hidden := True\<rparr>))\<lparr>readyState := CLOSED\<rparr>)"
    by (rule wellformed_frame [OF wellformed_abort [OF calculation [of True], of "abortController s"]])
       simp_all
  ultimately show ?thesis
    using VisibilityChanges step w
    by (auto simp: visibilitychange_def onVisibilityChange_def Let_def wellformed_open
        split: if_splits)
qed

lemma wellformed_run:
  assumes "wellformed s" and "run config input occs s = Some s'"
  shows "wellformed s'"
  using assms
proof (induction occs arbitrary: s)
  case Nil
  then show ?case by simp
next
  case (Cons occ occs)
  then show ?case
    by (auto split: option.splits dest: wellformed_step)
qed

lemma wellformed_mount: "wellformed (mount config input)"
  by (simp add: wellformed_def mount_def effect_body_def startStream_def initial_def Let_def)

section \<open>C1: the contract of open\<close>

text \<open>
  C1, as stated, says that \<^verbatim>\<open>open()\<close> leaves the state unchanged while the session is
  \<open>OPEN\<close> or \<open>CONNECTING\<close>. The source assigns \<^verbatim>\<open>explicitlyOpen.current = true\<close> before
  it tests the state. The session \<open>closed_while_validating\<close> is reached by a run and is
  \<open>OPEN\<close> with \<open>explicitlyOpen\<close> false: there \<^verbatim>\<open>open()\<close> changes the state.
\<close>

theorem C1_open_changes_explicitlyOpen:
  "run accepting_config ''/sse'' [ResponseArrives 0 ok_response, CallsClose, OnOpenSettles 0]
     (mount accepting_config ''/sse'') = Some closed_while_validating
   \<and> readyState closed_while_validating = OPEN
   \<and> open_call accepting_config ''/sse'' closed_while_validating \<noteq> closed_while_validating"
proof -
  have "explicitlyOpen (open_call accepting_config ''/sse'' closed_while_validating)
        \<noteq> explicitlyOpen closed_while_validating"
    by (simp add: open_call_def closed_while_validating_def Let_def)
  then have "open_call accepting_config ''/sse'' closed_while_validating \<noteq> closed_while_validating"
    by auto
  with closed_while_validating_reached show ?thesis
    by (simp add: closed_while_validating_def)
qed

text \<open>
  C1, amended. While the session is \<open>OPEN\<close> or \<open>CONNECTING\<close>, \<^verbatim>\<open>open()\<close> starts no
  exchange and changes nothing but \<open>explicitlyOpen\<close>, which it sets to true; so it is a
  no-op when \<open>explicitlyOpen\<close> was true already, and that is so in every session that a
  run reaches when the caller supplied no \<^verbatim>\<open>onOpen\<close>. While the session is \<open>CLOSED\<close>,
  \<^verbatim>\<open>open()\<close> sets \<open>explicitlyOpen\<close> to true, makes the state \<open>CONNECTING\<close> and starts
  exactly one exchange, with a new controller. The request headers of that exchange
  are the caller's headers, and in addition \<^verbatim>\<open>Last-Event-ID\<close> with the value of
  \<open>lastEventId\<close> when that is set (and not empty) and the caller supplied no header of
  that name: a caller's \<^verbatim>\<open>Last-Event-ID\<close> wins over the injected one.
\<close>

theorem C1_open_contract:
  "(readyState s \<noteq> CLOSED \<longrightarrow> open_call config input s = s\<lparr>explicitlyOpen := True\<rparr>)
   \<and> (readyState s \<noteq> CLOSED \<and> explicitlyOpen s \<longrightarrow> open_call config input s = s)
   \<and> (readyState s = CLOSED \<longrightarrow>
        open_call config input s =
          s\<lparr>abortController := Some (length (exchanges s)),
            explicitlyOpen := True,
            readyState := CONNECTING,
            exchanges := exchanges s @
              [\<lparr>ex_input = input, ex_headers = requestHeaders config s,
                ex_init = rest_of config, signal_aborted = False, phase = Fetching\<rparr>]\<rparr>)
   \<and> requestHeaders config s name =
       (case (case headers_of config of None \<Rightarrow> None | Some h \<Rightarrow> h name) of
          Some v \<Rightarrow> Some v
        | None \<Rightarrow>
            (case lastEventId s of
               None \<Rightarrow> None
             | Some i \<Rightarrow> if name = ''Last-Event-ID'' \<and> i \<noteq> '''' then Some i else None))
   \<and> (onOpen config = None \<and> run config input occs (mount config input) = Some s
        \<and> readyState s \<noteq> CLOSED \<longrightarrow>
        open_call config input s = s)"
proof -
  have unchanged: "readyState s \<noteq> CLOSED \<and> explicitlyOpen s \<Longrightarrow> open_call config input s = s"
    by (simp add: open_call_eq)
  have reached: "open_call config input s = s"
    if "onOpen config = None \<and> run config input occs (mount config input) = Some s
        \<and> readyState s \<noteq> CLOSED"
  proof -
    have "never_suspended s"
      using that never_suspended_run [OF _ single_flight_mount never_suspended_mount] by blast
    then have "explicitlyOpen s"
      using that by (simp add: never_suspended_def)
    then show ?thesis
      using that unchanged by blast
  qed
  show ?thesis
    using unchanged reached requestHeaders_lookup [of config s name] by (simp add: open_call_eq)
qed

theorem C1_open_contract_witness:
  "readyState streaming_session \<noteq> CLOSED
   \<and> explicitlyOpen streaming_session
   \<and> onOpen plain_config = None
   \<and> run plain_config ''/sse'' [ResponseArrives 0 ok_response, FrameArrives 0 frame_a1]
        (mount plain_config ''/sse'') = Some streaming_session
   \<and> open_call plain_config ''/sse'' streaming_session = streaming_session
   \<and> readyState retrying_session = CLOSED
   \<and> snapshot (open_call bearer_config ''/events'' retrying_session) = (CONNECTING, True, [1], 2)
   \<and> ex_input (exchanges (open_call bearer_config ''/events'' retrying_session) ! 1) = ''/events''
   \<and> ex_headers (exchanges (open_call bearer_config ''/events'' retrying_session) ! 1)
        ''Last-Event-ID'' = Some ''a1''
   \<and> ex_headers (exchanges (open_call bearer_config ''/events'' retrying_session) ! 1)
        ''Authorization'' = Some ''Bearer t''
   \<and> requestHeaders resuming_config retrying_session ''Last-Event-ID'' = Some ''mine''"
proof -
  have absent: "onOpen plain_config = None"
    by (simp add: plain_config_def)
  have inert: "open_call plain_config ''/sse'' streaming_session = streaming_session"
    using absent streaming_session_reached
      C1_open_contract [of streaming_session plain_config "''/sse''" _
        "[ResponseArrives 0 ok_response, FrameArrives 0 frame_a1]"]
    by (simp add: streaming_session_def)
  have started: "open_call bearer_config ''/events'' retrying_session =
      retrying_session
        \<lparr>abortController := Some (length (exchanges retrying_session)),
         explicitlyOpen := True,
         readyState := CONNECTING,
         exchanges := exchanges retrying_session @
           [\<lparr>ex_input = ''/events'', ex_headers = requestHeaders bearer_config retrying_session,
             ex_init = rest_of bearer_config, signal_aborted = False, phase = Fetching\<rparr>]\<rparr>"
    using C1_open_contract [of retrying_session bearer_config "''/events''"]
    by (simp add: retrying_session_def)
  have injected: "requestHeaders bearer_config retrying_session ''Last-Event-ID'' = Some ''a1''"
    using C1_open_contract [of retrying_session bearer_config "''/events''" "''Last-Event-ID''"]
    by (simp add: retrying_session_def bearer_config_def plain_config_def headers_of_def
          header_entries_def)
  have supplied: "requestHeaders bearer_config retrying_session ''Authorization'' = Some ''Bearer t''"
    using C1_open_contract [of retrying_session bearer_config "''/events''" "''Authorization''"]
    by (simp add: retrying_session_def bearer_config_def plain_config_def headers_of_def
          header_entries_def)
  have wins: "requestHeaders resuming_config retrying_session ''Last-Event-ID'' = Some ''mine''"
    using C1_open_contract [of retrying_session resuming_config "''/events''" "''Last-Event-ID''"]
    by (simp add: retrying_session_def resuming_config_def plain_config_def headers_of_def
          header_entries_def)
  have facts: "readyState streaming_session \<noteq> CLOSED \<and> explicitlyOpen streaming_session
      \<and> readyState retrying_session = CLOSED \<and> length (exchanges retrying_session) = 1
      \<and> map fst (timers retrying_session) = [1]"
    by (simp add: streaming_session_def retrying_session_def)
  show ?thesis
    using facts absent streaming_session_reached
    by (simp add: inert started injected supplied wins snapshot_def nth_append)
qed

section \<open>C2: the contract of close\<close>

text \<open>
  C2 says that after \<^verbatim>\<open>close()\<close> no retry fires and no exchange is started until
  \<^verbatim>\<open>open()\<close> is called again. The run below contradicts it. The server ends two
  streams; the caller opened the second before the retry timer of the first (handle 1)
  fired. \<^verbatim>\<open>onclose\<close> then stores the handle of a second timer over the first without
  clearing it, so \<^verbatim>\<open>close()\<close> clears timer 2 only. Timer 1 fires \<^verbatim>\<open>open\<close>, which sets
  \<open>explicitlyOpen\<close> and starts a third exchange.
\<close>

theorem C2_stale_timer_reopens_after_close:
  "map_option snapshot
     (run plain_config ''/sse'' two_closed_streams (mount plain_config ''/sse''))
     = Some (CLOSED, True, [1, 2], 2)
   \<and> map_option retryTimeoutId
     (run plain_config ''/sse'' two_closed_streams (mount plain_config ''/sse''))
     = Some (Some 2)
   \<and> map_option snapshot
     (run plain_config ''/sse'' (two_closed_streams @ [CallsClose]) (mount plain_config ''/sse''))
     = Some (CLOSED, False, [1], 2)
   \<and> map_option snapshot
     (run plain_config ''/sse'' (two_closed_streams @ [CallsClose, TimerFires 1])
        (mount plain_config ''/sse''))
     = Some (CONNECTING, True, [], 3)"
  by (simp add: two_closed_streams_def example_defs snapshot_def hook_defs run_defs
        toLowerCase_def toLowerCase_char_def Let_def)

section \<open>C3: the last event id\<close>

text \<open>
  C3. Every received frame sets \<open>lastEventId\<close> from its id alone: an empty id makes
  it absent, a non-empty id replaces it by exactly that id, also when it repeats the
  id recorded before.
\<close>

theorem C3_lastEventId_of_frame:
  "lastEventId (onmessage config ev s) = (if id' ev = '''' then None else Some (id' ev))"
  by (simp add: onmessage_def Let_def split: option.splits)

theorem C3_lastEventId_of_frame_witness:
  "lastEventId (onmessage plain_config frame_a1 streaming_session) = Some ''a1''
   \<and> lastEventId (onmessage plain_config (frame_a1\<lparr>id' := ''''\<rparr>) streaming_session) = None"
  using C3_lastEventId_of_frame [of plain_config frame_a1 streaming_session]
    C3_lastEventId_of_frame [of plain_config "frame_a1\<lparr>id' := ''''\<rparr>" streaming_session]
  by (simp add: frame_a1_def)

section \<open>C4: the retry field of a frame\<close>

text \<open>
  C4 says that a frame with the retry field \<open>R\<close> makes \<open>retryInterval\<close> equal to \<open>R\<close>.
  The source tests \<^verbatim>\<open>if (ev.retry)\<close>, which fails for the number 0: a frame with
  \<^verbatim>\<open>retry: 0\<close> leaves the interval of 2000 ms in place, and the retry after the next
  end of the stream is scheduled with it.
\<close>

theorem C4_retry_zero_is_ignored:
  "retryInterval (onmessage plain_config (frame_a1\<lparr>retry := Some 0\<rparr>) streaming_session) = 2000
   \<and> timers (onclose plain_config
        (onmessage plain_config (frame_a1\<lparr>retry := Some 0\<rparr>) streaming_session))
     = [(1, OpenHandler, 2000)]"
  by (simp add: onclose_eq) (simp add: onmessage_def example_defs Let_def)

section \<open>C5: an error that the caller's policy refuses to retry\<close>

text \<open>
  C5 says that after every error no timer is set when the caller's \<^verbatim>\<open>onError\<close> returns
  \<^verbatim>\<open>false\<close>. \<^verbatim>\<open>_handleRetry\<close> tells an error from the end of the stream by the test
  \<^verbatim>\<open>if (err)\<close>, which fails for a rejection without a reason. Take a caller whose
  \<^verbatim>\<open>onOpen\<close> rejects as \<^verbatim>\<open>Promise.reject()\<close> does and whose \<^verbatim>\<open>onError\<close> always returns
  \<^verbatim>\<open>false\<close>. When the response has arrived and the promise of \<^verbatim>\<open>onOpen\<close> has settled, the
  \<^verbatim>\<open>.catch\<close> handler has not called \<^verbatim>\<open>onError\<close> (the only callback called is \<^verbatim>\<open>onOpen\<close>),
  and timer 1 is pending, with the default delay, and its handle is stored.
\<close>

theorem C5_falsy_rejection_bypasses_onError:
  "onOpen rejecting_config = Some reject_undefined
   \<and> reject_undefined ok_response = Some (Falsy JsUndefined)
   \<and> onError rejecting_config = Some never_retry
   \<and> never_retry (Falsy JsUndefined) 0 = DoNotRetry
   \<and> map_option snapshot
        (run rejecting_config ''/sse'' [ResponseArrives 0 ok_response, OnOpenSettles 0]
           (mount rejecting_config ''/sse''))
       = Some (CLOSED, True, [1], 1)
   \<and> map_option timers
        (run rejecting_config ''/sse'' [ResponseArrives 0 ok_response, OnOpenSettles 0]
           (mount rejecting_config ''/sse''))
       = Some [(1, OpenHandler, 1000)]
   \<and> map_option retryTimeoutId
        (run rejecting_config ''/sse'' [ResponseArrives 0 ok_response, OnOpenSettles 0]
           (mount rejecting_config ''/sse''))
       = Some (Some 1)
   \<and> map_option errorRetries
        (run rejecting_config ''/sse'' [ResponseArrives 0 ok_response, OnOpenSettles 0]
           (mount rejecting_config ''/sse''))
       = Some 0
   \<and> map_option calls
        (run rejecting_config ''/sse'' [ResponseArrives 0 ok_response, OnOpenSettles 0]
           (mount rejecting_config ''/sse''))
       = Some [OnOpenCall ok_response]"
proof -
  have supplied: "onOpen rejecting_config = Some reject_undefined
      \<and> reject_undefined ok_response = Some (Falsy JsUndefined)
      \<and> onError rejecting_config = Some never_retry
      \<and> never_retry (Falsy JsUndefined) 0 = DoNotRetry"
    by (simp add: rejecting_config_def plain_config_def reject_undefined_def never_retry_def)
  have reached:
    "run rejecting_config ''/sse'' [ResponseArrives 0 ok_response, OnOpenSettles 0]
       (mount rejecting_config ''/sse'')
     = Some \<lparr>abortController = Some 0, lastEventId = None, retryTimeoutId = Some 1,
             explicitlyOpen = True, errorRetries = 0, retryInterval = 1000, hidden = False,
             readyState = CLOSED, eventMessage = None,
             exchanges = [\<lparr>ex_input = ''/sse'', ex_headers = Map.empty, ex_init = Map.empty,
                            signal_aborted = False, phase = Finished\<rparr>],
             timers = [(1, OpenHandler, 1000)], nextTimerId = 2,
             calls = [OnOpenCall ok_response]\<rparr>"
    by (simp add: example_defs hook_defs run_defs Let_def)
  show ?thesis
    unfolding reached using supplied by (simp add: snapshot_def)
qed

section \<open>C6: the end of the stream without a policy\<close>

text \<open>
  C6. When the server ends the stream and the caller supplied no \<^verbatim>\<open>onClose\<close>, the state
  becomes \<open>CLOSED\<close>, one timer is set whose handler is \<^verbatim>\<open>open\<close> and whose delay is
  \<open>retryInterval\<close>, and its handle is stored. The count of error retries is unchanged
  by \<^verbatim>\<open>onclose\<close> whatever the configuration. It grows, by one, only in the \<^verbatim>\<open>.catch\<close>
  handler, and there only when the error is a value that JavaScript takes for true and
  the policy did not refuse; no other handler changes it but \<^verbatim>\<open>onopen\<close>, which resets
  it (C7).
\<close>

theorem C6_close_without_onClose_retries:
  "(onClose config = None \<longrightarrow>
      onclose config s =
        s\<lparr>readyState := CLOSED,
          timers := timers s @ [(nextTimerId s, OpenHandler, retryInterval s)],
          nextTimerId := Suc (nextTimerId s),
          retryTimeoutId := Some (nextTimerId s)\<rparr>)
   \<and> fire config input OpenHandler s' = open_call config input s'
   \<and> errorRetries (onclose config s) = errorRetries s
   \<and> errorRetries (oncatch config err s) =
       (if truthy err
           \<and> map_option (\<lambda>policy. policy err (errorRetries s)) (onError config)
               \<noteq> Some DoNotRetry
        then errorRetries s + 1 else errorRetries s)
   \<and> errorRetries (onmessage config ev s) = errorRetries s
   \<and> errorRetries (open_call config input s) = errorRetries s
   \<and> errorRetries (close_call s) = errorRetries s
   \<and> errorRetries (onVisibilityChange config input isHidden s) = errorRetries s
   \<and> errorRetries (reconfigure config input s) = errorRetries s"
proof -
  have sched: "onClose config = None \<Longrightarrow>
      onclose config s =
        s\<lparr>readyState := CLOSED,
          timers := timers s @ [(nextTimerId s, OpenHandler, retryInterval s)],
          nextTimerId := Suc (nextTimerId s),
          retryTimeoutId := Some (nextTimerId s)\<rparr>"
    by (simp add: onclose_eq)
  have closes: "errorRetries (onclose config s) = errorRetries s"
    by (simp add: onclose_eq split: option.splits RetryDecision.splits)
  have msg: "errorRetries (onmessage config ev s) = errorRetries s"
    by (simp add: onmessage_def Let_def split: option.splits)
  have opn: "errorRetries (open_call config input s) = errorRetries s" for s
    by (simp add: open_call_eq)
  have abt: "errorRetries (abort c s) = errorRetries s" for c s
    by (simp add: abort_def split: option.splits)
  have cls: "errorRetries (close_call s) = errorRetries s"
    by (simp add: close_call_eq)
  have vis: "errorRetries (onVisibilityChange config input isHidden s) = errorRetries s"
    by (simp add: onVisibilityChange_def Let_def opn abt)
  have rec: "errorRetries (reconfigure config input s) = errorRetries s"
    by (simp add: reconfigure_def effect_body_def startStream_def Let_def effect_cleanup_eq)
  show ?thesis
    using sched by (simp add: oncatch_errorRetries closes msg opn cls vis rec)
qed

theorem C6_close_without_onClose_retries_witness:
  "onClose plain_config = None
   \<and> onclose plain_config streaming_session
       = streaming_session
           \<lparr>readyState := CLOSED, timers := [(1, OpenHandler, 2000)], nextTimerId := 2,
            retryTimeoutId := Some 1\<rparr>
   \<and> errorRetries (onclose plain_config streaming_session) = 0
   \<and> errorRetries (oncatch plain_config (Error ''network'') streaming_session) = 1
   \<and> errorRetries (oncatch plain_config (Falsy JsUndefined) streaming_session) = 0
   \<and> errorRetries (oncatch refusing_config (Error ''network'') streaming_session) = 0"
proof -
  have absent: "onClose plain_config = None"
    by (simp add: plain_config_def)
  have closes: "onclose plain_config streaming_session
       = streaming_session
           \<lparr>readyState := CLOSED, timers := [(1, OpenHandler, 2000)], nextTimerId := 2,
            retryTimeoutId := Some 1\<rparr>
      \<and> errorRetries (onclose plain_config streaming_session) = 0
      \<and> errorRetries (oncatch plain_config (Error ''network'') streaming_session) = 1"
    using absent
      C6_close_without_onClose_retries
        [of plain_config streaming_session "''/sse''" streaming_session "Error ''network''"]
    by (simp add: streaming_session_def plain_config_def)
  have falsy: "errorRetries (oncatch plain_config (Falsy JsUndefined) streaming_session) = 0"
    using C6_close_without_onClose_retries
        [of plain_config streaming_session "''/sse''" streaming_session "Falsy JsUndefined"]
    by (simp add: streaming_session_def)
  have refused: "errorRetries (oncatch refusing_config (Error ''network'') streaming_session) = 0"
    using C6_close_without_onClose_retries
        [of refusing_config streaming_session "''/sse''" streaming_session "Error ''network''"]
    by (simp add: streaming_session_def refusing_config_def plain_config_def never_retry_def)
  show ?thesis
    using absent closes falsy refused by blast
qed

section \<open>C7: validation of the response\<close>

text \<open>
  C7. Without a caller's \<^verbatim>\<open>onOpen\<close>, \<^verbatim>\<open>onopen\<close> throws the open error, which carries the
  response, unless \<^verbatim>\<open>response.ok\<close> holds and the content type is present and equal to
  \<^verbatim>\<open>text/event-stream\<close> up to case. With a caller's \<^verbatim>\<open>onOpen\<close> the outcome is that of
  the callback alone, whatever the status and the content type. Whenever \<^verbatim>\<open>onopen\<close>
  succeeds the state is \<open>OPEN\<close> and the count of error retries is 0.
\<close>

theorem C7_open_validation:
  "(onOpen config = None \<longrightarrow>
      onopen config response s =
        (if ok response \<and>
            (case content_type response of
               None \<Rightarrow> False
             | Some c \<Rightarrow> equals_ignoring_case c ''text/event-stream'')
         then Inr (s\<lparr>readyState := OPEN, errorRetries := 0\<rparr>)
         else Inl (openError response)))
   \<and> response_of (openError response) = Some response
   \<and> (onOpen config = Some validate \<longrightarrow>
      onopen config response s =
        (case validate response of
           Some e \<Rightarrow> Inl e
         | None \<Rightarrow>
             Inr (s\<lparr>calls := calls s @ [OnOpenCall response], readyState := OPEN,
                    errorRetries := 0\<rparr>)))
   \<and> (onopen config response s = Inr s' \<longrightarrow> readyState s' = OPEN \<and> errorRetries s' = 0)"
proof -
  have default: "onOpen config = None \<Longrightarrow>
      onopen config response s =
        (if ok response \<and>
            (case content_type response of
               None \<Rightarrow> False
             | Some c \<Rightarrow> equals_ignoring_case c ''text/event-stream'')
         then Inr (s\<lparr>readyState := OPEN, errorRetries := 0\<rparr>)
         else Inl (openError response))"
    by (simp add: onopen_def onopen_begin_def onopen_resume_def equals_ignoring_case_def
          toLowerCase_event_stream split: option.splits)
  have custom: "onOpen config = Some validate \<Longrightarrow>
      onopen config response s =
        (case validate response of
           Some e \<Rightarrow> Inl e
         | None \<Rightarrow>
             Inr (s\<lparr>calls := calls s @ [OnOpenCall response], readyState := OPEN,
                    errorRetries := 0\<rparr>))"
    by (simp add: onopen_def onopen_begin_def onopen_resume_def split: option.splits)
  have success: "onopen config response s = Inr s' \<Longrightarrow> readyState s' = OPEN \<and> errorRetries s' = 0"
    by (auto simp: onopen_def onopen_begin_def onopen_resume_def
          split: option.splits if_splits sum.splits)
  show ?thesis
    using default custom success by (simp add: response_of_def openError_def)
qed

theorem C7_open_validation_witness:
  "onOpen plain_config = None
   \<and> onopen plain_config mixed_case_response connecting_session
       = Inr (connecting_session\<lparr>readyState := OPEN, errorRetries := 0\<rparr>)
   \<and> onopen plain_config html_response connecting_session = Inl (openError html_response)
   \<and> response_of (openError html_response) = Some html_response
   \<and> onOpen accepting_config = Some accept_any
   \<and> onopen accepting_config html_response connecting_session
       = Inr (connecting_session
                \<lparr>calls := [OnOpenCall html_response], readyState := OPEN, errorRetries := 0\<rparr>)
   \<and> errorRetries connecting_session = 2"
proof -
  have absent: "onOpen plain_config = None"
    by (simp add: plain_config_def)
  have supplied: "onOpen accepting_config = Some accept_any"
    by (simp add: accepting_config_def plain_config_def)
  have same: "equals_ignoring_case ''Text/Event-Stream'' ''text/event-stream''"
    by code_simp
  have other: "\<not> equals_ignoring_case ''text/html'' ''text/event-stream''"
    by code_simp
  have accepted: "onopen plain_config mixed_case_response connecting_session
       = Inr (connecting_session\<lparr>readyState := OPEN, errorRetries := 0\<rparr>)"
    using absent same
      C7_open_validation [of plain_config mixed_case_response connecting_session]
    by (simp add: mixed_case_response_def)
  have rejected: "onopen plain_config html_response connecting_session = Inl (openError html_response)"
    using absent other
      C7_open_validation [of plain_config html_response connecting_session]
    by (simp add: html_response_def)
  have carried: "response_of (openError html_response) = Some html_response"
    using C7_open_validation [of plain_config html_response connecting_session] by simp
  have replaced: "onopen accepting_config html_response connecting_session
       = Inr (connecting_session
                \<lparr>calls := [OnOpenCall html_response], readyState := OPEN, errorRetries := 0\<rparr>)"
    using supplied
      C7_open_validation [of accepting_config html_response connecting_session accept_any]
    by (simp add: accept_any_def connecting_session_def)
  show ?thesis
    using absent supplied accepted rejected carried replaced
    by (simp add: connecting_session_def)
qed

section \<open>C8: the visibility gate\<close>

text \<open>
  C8. The listener acts only when \<^verbatim>\<open>openWhenHidden === false\<close>. When the document becomes
  hidden it aborts the signal of the current exchange and makes the state \<open>CLOSED\<close>;
  it calls no policy, sets no timer and leaves \<open>explicitlyOpen\<close>, the count of error
  retries and \<open>lastEventId\<close> as they were. When the document becomes visible it calls
  \<^verbatim>\<open>open()\<close> if \<open>explicitlyOpen\<close> is true, and does nothing else. So hiding and then
  showing an explicitly open session starts one new exchange, whose headers are built
  from the \<open>lastEventId\<close> the session had: it carries that id as \<^verbatim>\<open>Last-Event-ID\<close>
  unless the caller supplied a header of that name.
\<close>

theorem C8_visibility_gating:
  "(openWhenHidden config \<noteq> Some False \<longrightarrow> visibilitychange config input isHidden s = s)
   \<and> (openWhenHidden config = Some False \<longrightarrow>
        visibilitychange config input True s =
          s\<lparr>hidden := True, exchanges := exchanges (abort (abortController s) s),
            readyState := CLOSED\<rparr>
        \<and> (\<forall>c. abortController s = Some c \<and> c < length (exchanges s) \<longrightarrow>
               signal_aborted (exchanges (visibilitychange config input True s) ! c))
        \<and> readyState (visibilitychange config input True s) = CLOSED
        \<and> explicitlyOpen (visibilitychange config input True s) = explicitlyOpen s
        \<and> calls (visibilitychange config input True s) = calls s
        \<and> timers (visibilitychange config input True s) = timers s
        \<and> errorRetries (visibilitychange config input True s) = errorRetries s
        \<and> lastEventId (visibilitychange config input True s) = lastEventId s
        \<and> visibilitychange config input False s =
            (if explicitlyOpen s then open_call config input (s\<lparr>hidden := False\<rparr>)
             else s\<lparr>hidden := False\<rparr>)
        \<and> (explicitlyOpen s \<longrightarrow>
              visibilitychange config input False (visibilitychange config input True s) =
                s\<lparr>hidden := False,
                  abortController := Some (length (exchanges s)),
                  readyState := CONNECTING,
                  exchanges := exchanges (abort (abortController s) s) @
                    [\<lparr>ex_input = input, ex_headers = requestHeaders config s,
                      ex_init = rest_of config, signal_aborted = False, phase = Fetching\<rparr>]\<rparr>))
   \<and> (lastEventId s = Some i \<and> i \<noteq> '''' \<and>
        (case headers_of config of None \<Rightarrow> None | Some h \<Rightarrow> h ''Last-Event-ID'') = None \<longrightarrow>
        requestHeaders config s ''Last-Event-ID'' = Some i)"
proof -
  have inactive: "openWhenHidden config \<noteq> Some False \<Longrightarrow> visibilitychange config input isHidden s = s"
    by (simp add: visibilitychange_def)
  have hide: "onVisibilityChange config input True s =
      s\<lparr>hidden := True, exchanges := exchanges (abort (abortController s) s), readyState := CLOSED\<rparr>"
    by (simp add: onVisibilityChange_def Let_def abort_def split: option.splits)
  have signal: "abortController s = Some c \<and> c < length (exchanges s) \<longrightarrow>
      signal_aborted (exchanges (onVisibilityChange config input True s) ! c)" for c
    by (simp add: hide abort_def)
  have show_again: "onVisibilityChange config input False s =
      (if explicitlyOpen s then open_call config input (s\<lparr>hidden := False\<rparr>)
       else s\<lparr>hidden := False\<rparr>)" for s
    by (simp add: onVisibilityChange_def Let_def)
  have resume: "explicitlyOpen s \<Longrightarrow>
      onVisibilityChange config input False (onVisibilityChange config input True s) =
        s\<lparr>hidden := False,
          abortController := Some (length (exchanges s)),
          readyState := CONNECTING,
          exchanges := exchanges (abort (abortController s) s) @
            [\<lparr>ex_input = input, ex_headers = requestHeaders config s,
              ex_init = rest_of config, signal_aborted = False, phase = Fetching\<rparr>]\<rparr>"
    by (simp add: show_again hide open_call_eq abort_length requestHeaders_def)
  have header: "lastEventId s = Some i \<and> i \<noteq> '''' \<and>
        (case headers_of config of None \<Rightarrow> None | Some h \<Rightarrow> h ''Last-Event-ID'') = None \<Longrightarrow>
        requestHeaders config s ''Last-Event-ID'' = Some i"
    by (simp add: requestHeaders_lookup)
  have gated: "openWhenHidden config = Some False \<Longrightarrow>
      visibilitychange config input h s' = onVisibilityChange config input h s'" for h s'
    by (simp add: visibilitychange_def)
  show ?thesis
  proof (intro conjI impI)
    assume "openWhenHidden config \<noteq> Some False"
    then show "visibilitychange config input isHidden s = s" by (rule inactive)
  next
    assume "lastEventId s = Some i \<and> i \<noteq> '''' \<and>
        (case headers_of config of None \<Rightarrow> None | Some h \<Rightarrow> h ''Last-Event-ID'') = None"
    then show "requestHeaders config s ''Last-Event-ID'' = Some i" by (rule header)
  next
    assume gate: "openWhenHidden config = Some False" and "explicitlyOpen s"
    then show "visibilitychange config input False (visibilitychange config input True s) =
                s\<lparr>hidden := False,
                  abortController := Some (length (exchanges s)),
                  readyState := CONNECTING,
                  exchanges := exchanges (abort (abortController s) s) @
                    [\<lparr>ex_input = input, ex_headers = requestHeaders config s,
                      ex_init = rest_of config, signal_aborted = False, phase = Fetching\<rparr>]\<rparr>"
      by (simp only: gated resume)
  next
    assume gate: "openWhenHidden config = Some False"
    show "\<forall>c. abortController s = Some c \<and> c < length (exchanges s) \<longrightarrow>
               signal_aborted (exchanges (visibilitychange config input True s) ! c)"
      using signal by (simp only: gated [OF gate]) blast
  qed (simp_all add: gated hide show_again)
qed

theorem C8_visibility_gating_witness:
  "openWhenHidden plain_config \<noteq> Some False
   \<and> visibilitychange plain_config ''/sse'' True streaming_session = streaming_session
   \<and> openWhenHidden gated_config = Some False
   \<and> abortController streaming_session = Some 0
   \<and> explicitlyOpen streaming_session
   \<and> lastEventId streaming_session = Some ''a1''
   \<and> snapshot (visibilitychange gated_config ''/sse'' True streaming_session)
       = (CLOSED, True, [], 1)
   \<and> signal_aborted (exchanges (visibilitychange gated_config ''/sse'' True streaming_session) ! 0)
   \<and> calls (visibilitychange gated_config ''/sse'' True streaming_session) = []
   \<and> snapshot (visibilitychange gated_config ''/sse'' False
                 (visibilitychange gated_config ''/sse'' True streaming_session))
       = (CONNECTING, True, [], 2)
   \<and> ex_headers (exchanges (visibilitychange gated_config ''/sse'' False
                 (visibilitychange gated_config ''/sse'' True streaming_session)) ! 1)
        ''Last-Event-ID'' = Some ''a1''"
proof -
  have off: "openWhenHidden plain_config \<noteq> Some False"
    by (simp add: plain_config_def)
  have on: "openWhenHidden gated_config = Some False"
    by (simp add: gated_config_def plain_config_def)
  have facts: "abortController streaming_session = Some 0 \<and> 0 < length (exchanges streaming_session)
      \<and> explicitlyOpen streaming_session \<and> lastEventId streaming_session = Some ''a1''"
    by (simp add: streaming_session_def)
  have none: "(case headers_of gated_config of None \<Rightarrow> None | Some h \<Rightarrow> h ''Last-Event-ID'') = None"
    by (simp add: headers_of_def header_entries_def gated_config_def plain_config_def)
  have inert: "visibilitychange plain_config ''/sse'' True streaming_session = streaming_session"
    using off C8_visibility_gating [of plain_config "''/sse''" True streaming_session] by simp
  note gate = C8_visibility_gating [of gated_config "''/sse''" True streaming_session "''a1''"]
  have hidden_now: "visibilitychange gated_config ''/sse'' True streaming_session =
          streaming_session
            \<lparr>hidden := True,
             exchanges := exchanges (abort (abortController streaming_session) streaming_session),
             readyState := CLOSED\<rparr>"
    using on gate by simp
  have signal: "signal_aborted (exchanges (visibilitychange gated_config ''/sse'' True streaming_session) ! 0)"
    using on facts gate by blast
  have shown: "visibilitychange gated_config ''/sse'' False
        (visibilitychange gated_config ''/sse'' True streaming_session) =
          streaming_session
            \<lparr>hidden := False,
             abortController := Some (length (exchanges streaming_session)),
             readyState := CONNECTING,
             exchanges := exchanges (abort (abortController streaming_session) streaming_session) @
               [\<lparr>ex_input = ''/sse'', ex_headers = requestHeaders gated_config streaming_session,
                 ex_init = rest_of gated_config, signal_aborted = False, phase = Fetching\<rparr>]\<rparr>"
    using on facts gate by blast
  have header: "requestHeaders gated_config streaming_session ''Last-Event-ID'' = Some ''a1''"
    using facts none gate by simp
  show ?thesis
    using off on facts inert signal header
    by (simp add: shown snapshot_def abort_length nth_append)
       (simp add: hidden_now snapshot_def abort_length, simp add: streaming_session_def)
qed

section \<open>C9: reconfiguration\<close>

text \<open>
  C9 says that every change of the input or of a request option while the session is
  explicitly open aborts the exchange in flight and starts a new one with the new
  settings. The effect runs again only when its dependency list changes, and the list
  holds the values of the request options without their keys. Take the explicitly open
  session of \<open>method_config\<close> whose stream is open, and a render with \<open>body_config\<close>,
  where the option \<^verbatim>\<open>method: "POST"\<close> has become \<^verbatim>\<open>body: "POST"\<close>. The two dependency
  lists are equal, so the effect does not run: the session is what it was, the signal
  of its exchange is not aborted and no exchange is started. A render with a new input
  does abort the exchange and start a second one.

  The guard of the effect has a defect of its own: it reads the ref object
  \<^verbatim>\<open>hidden\<close>, not \<^verbatim>\<open>hidden.current\<close>. With \<^verbatim>\<open>openWhenHidden: false\<close> the effect therefore
  starts nothing, whether the document is hidden or not. For the session of
  \<open>gated_config\<close> that is explicitly open, visible and streaming, a render with a new
  input aborts the exchange, starts none and leaves the state \<open>OPEN\<close>.
\<close>

theorem C9_changed_option_key_is_not_noticed:
  "rest_of method_config ''method'' = Some ''POST''
   \<and> rest_of body_config ''method'' = None
   \<and> rest_of body_config ''body'' = Some ''POST''
   \<and> dependencies method_config ''/sse'' = [''/sse'', ''POST'']
   \<and> dependencies body_config ''/sse'' = [''/sse'', ''POST'']
   \<and> map_option snapshot
        (run method_config ''/sse'' [ResponseArrives 0 ok_response]
           (mount method_config ''/sse''))
       = Some (OPEN, True, [], 1)
   \<and> map_option signals
        (run method_config ''/sse'' [ResponseArrives 0 ok_response]
           (mount method_config ''/sse''))
       = Some [False]
   \<and> map_option (rerender method_config ''/sse'' body_config ''/sse'')
        (run method_config ''/sse'' [ResponseArrives 0 ok_response]
           (mount method_config ''/sse''))
       = run method_config ''/sse'' [ResponseArrives 0 ok_response]
           (mount method_config ''/sse'')
   \<and> map_option snapshot
        (map_option (rerender method_config ''/sse'' method_config ''/events'')
           (run method_config ''/sse'' [ResponseArrives 0 ok_response]
              (mount method_config ''/sse'')))
       = Some (CONNECTING, True, [], 2)
   \<and> map_option signals
        (map_option (rerender method_config ''/sse'' method_config ''/events'')
           (run method_config ''/sse'' [ResponseArrives 0 ok_response]
              (mount method_config ''/sse'')))
       = Some [True, False]
   \<and> map_option snapshot
        (run gated_config ''/sse'' [CallsOpen, ResponseArrives 0 ok_response]
           (mount gated_config ''/sse''))
       = Some (OPEN, True, [], 1)
   \<and> map_option hidden
        (run gated_config ''/sse'' [CallsOpen, ResponseArrives 0 ok_response]
           (mount gated_config ''/sse''))
       = Some False
   \<and> map_option snapshot
        (map_option (rerender gated_config ''/sse'' gated_config ''/events'')
           (run gated_config ''/sse'' [CallsOpen, ResponseArrives 0 ok_response]
              (mount gated_config ''/sse'')))
       = Some (OPEN, True, [], 1)
   \<and> map_option signals
        (map_option (rerender gated_config ''/sse'' gated_config ''/events'')
           (run gated_config ''/sse'' [CallsOpen, ResponseArrives 0 ok_response]
              (mount gated_config ''/sse'')))
       = Some [True]"
proof -
  have options: "rest_of method_config ''method'' = Some ''POST''
      \<and> rest_of body_config ''method'' = None
      \<and> rest_of body_config ''body'' = Some ''POST''"
    by (simp add: method_config_def body_config_def plain_config_def rest_of_def rest_entries_def)
  have lists: "dependencies method_config ''/sse'' = [''/sse'', ''POST'']
      \<and> dependencies body_config ''/sse'' = [''/sse'', ''POST'']
      \<and> dependencies method_config ''/events'' = [''/events'', ''POST'']
      \<and> dependencies gated_config ''/sse'' = [''/sse'']
      \<and> dependencies gated_config ''/events'' = [''/events'']"
    by (simp add: method_config_def body_config_def gated_config_def plain_config_def
          dependencies_def header_entries_def rest_entries_def)
  have posting:
    "run method_config ''/sse'' [ResponseArrives 0 ok_response] (mount method_config ''/sse'')
     = Some \<lparr>abortController = Some 0, lastEventId = None, retryTimeoutId = None,
             explicitlyOpen = True, errorRetries = 0, retryInterval = 1000, hidden = False,
             readyState = OPEN, eventMessage = None,
             exchanges = [\<lparr>ex_input = ''/sse'', ex_headers = Map.empty,
                            ex_init = [''method'' \<mapsto> ''POST''],
                            signal_aborted = False, phase = Streaming\<rparr>],
             timers = [], nextTimerId = 1, calls = []\<rparr>"
    by (simp add: example_defs hook_defs run_defs toLowerCase_def toLowerCase_char_def Let_def)
  have gated:
    "run gated_config ''/sse'' [CallsOpen, ResponseArrives 0 ok_response]
       (mount gated_config ''/sse'')
     = Some \<lparr>abortController = Some 0, lastEventId = None, retryTimeoutId = None,
             explicitlyOpen = True, errorRetries = 0, retryInterval = 1000, hidden = False,
             readyState = OPEN, eventMessage = None,
             exchanges = [\<lparr>ex_input = ''/sse'', ex_headers = Map.empty, ex_init = Map.empty,
                            signal_aborted = False, phase = Streaming\<rparr>],
             timers = [], nextTimerId = 1, calls = []\<rparr>"
    by (simp add: example_defs hook_defs run_defs toLowerCase_def toLowerCase_char_def Let_def)
  have on: "openWhenHidden gated_config = Some False
      \<and> openWhenHidden method_config = None"
    by (simp add: gated_config_def method_config_def plain_config_def)
  show ?thesis
    unfolding posting gated using options lists on
    by (simp add: rerender_def areHookInputsEqual_def snapshot_def signals_def
          reconfigure_def effect_body_def effect_cleanup_def startStream_def abort_def
          clearRetryTimeout_def Let_def)
qed

section \<open>C10: what close leaves alone\<close>

text \<open>
  C10. \<^verbatim>\<open>close()\<close> sets \<open>explicitlyOpen\<close> to false and the state to \<open>CLOSED\<close>, aborts
  the signal of the controller's exchange (that exchange becomes the same exchange with
  an aborted signal, and no other exchange changes), clears the timer whose handle is
  stored, so that no timer with that handle is pending, and forgets the handle; every
  other field, among them \<open>lastEventId\<close>, \<open>retryInterval\<close>, the count of error retries
  and the last message, is unchanged. A following \<^verbatim>\<open>open()\<close> therefore starts an exchange
  whose headers are built from the \<open>lastEventId\<close> recorded before the close (sent as
  \<^verbatim>\<open>Last-Event-ID\<close> unless the caller supplied that header), and the retry after the next
  end of the stream is scheduled with the \<open>retryInterval\<close> recorded before the close,
  unless a policy decides otherwise.
\<close>

theorem C10_close_frame:
  "close_call s =
     s\<lparr>explicitlyOpen := False,
       exchanges :=
         (case abortController s of
            None \<Rightarrow> exchanges s
          | Some c \<Rightarrow> (exchanges s)[c := (exchanges s ! c)\<lparr>signal_aborted := True\<rparr>]),
       timers := filter (\<lambda>timer. Some (fst timer) \<noteq> retryTimeoutId s) (timers s),
       retryTimeoutId := None,
       readyState := CLOSED\<rparr>
   \<and> (\<forall>c. abortController s = Some c \<and> c < length (exchanges s) \<longrightarrow>
          signal_aborted (exchanges (close_call s) ! c))
   \<and> (\<forall>t. retryTimeoutId s = Some t \<longrightarrow> t \<notin> fst ` set (timers (close_call s)))
   \<and> lastEventId (close_call s) = lastEventId s
   \<and> retryInterval (close_call s) = retryInterval s
   \<and> errorRetries (close_call s) = errorRetries s
   \<and> eventMessage (close_call s) = eventMessage s
   \<and> open_call config input (close_call s) =
       (close_call s)
         \<lparr>abortController := Some (length (exchanges s)),
          explicitlyOpen := True,
          readyState := CONNECTING,
          exchanges := exchanges (close_call s) @
            [\<lparr>ex_input = input, ex_headers = requestHeaders config s,
              ex_init = rest_of config, signal_aborted = False, phase = Fetching\<rparr>]\<rparr>
   \<and> retryInterval (open_call config input (close_call s)) = retryInterval s
   \<and> (lastEventId s = Some i \<and> i \<noteq> '''' \<and>
        (case headers_of config of None \<Rightarrow> None | Some h \<Rightarrow> h ''Last-Event-ID'') = None \<longrightarrow>
        requestHeaders config s ''Last-Event-ID'' = Some i)
   \<and> timers (onclose config (open_call config input (close_call s))) =
       (case map_option (\<lambda>policy. policy ()) (onClose config) of
          None \<Rightarrow> timers (close_call s) @ [(nextTimerId s, OpenHandler, retryInterval s)]
        | Some DoNotRetry \<Rightarrow> timers (close_call s)
        | Some (RetryAfter ms) \<Rightarrow> timers (close_call s) @ [(nextTimerId s, OpenHandler, ms)])"
proof -
  have closed: "close_call s =
     s\<lparr>explicitlyOpen := False,
       exchanges :=
         (case abortController s of
            None \<Rightarrow> exchanges s
          | Some c \<Rightarrow> (exchanges s)[c := (exchanges s ! c)\<lparr>signal_aborted := True\<rparr>]),
       timers := filter (\<lambda>timer. Some (fst timer) \<noteq> retryTimeoutId s) (timers s),
       retryTimeoutId := None,
       readyState := CLOSED\<rparr>"
    by (cases "abortController s") (simp_all add: close_call_eq abort_def)
  have signal: "abortController s = Some c \<and> c < length (exchanges s) \<Longrightarrow>
      signal_aborted (exchanges (close_call s) ! c)" for c
    by (simp add: close_call_eq abort_def)
  have timer: "retryTimeoutId s = Some t \<Longrightarrow> t \<notin> fst ` set (timers (close_call s))" for t
    by (auto simp: close_call_eq)
  have kept: "lastEventId (close_call s) = lastEventId s
      \<and> retryInterval (close_call s) = retryInterval s
      \<and> errorRetries (close_call s) = errorRetries s
      \<and> eventMessage (close_call s) = eventMessage s"
    by (simp add: close_call_eq)
  have reopen: "open_call config input (close_call s) =
       (close_call s)
         \<lparr>abortController := Some (length (exchanges s)),
          explicitlyOpen := True,
          readyState := CONNECTING,
          exchanges := exchanges (close_call s) @
            [\<lparr>ex_input = input, ex_headers = requestHeaders config s,
              ex_init = rest_of config, signal_aborted = False, phase = Fetching\<rparr>]\<rparr>"
    by (simp add: open_call_eq close_call_eq abort_length requestHeaders_def)
  have interval: "retryInterval (open_call config input (close_call s)) = retryInterval s"
    by (simp add: reopen) (simp add: close_call_eq)
  have header: "lastEventId s = Some i \<and> i \<noteq> '''' \<and>
        (case headers_of config of None \<Rightarrow> None | Some h \<Rightarrow> h ''Last-Event-ID'') = None \<Longrightarrow>
        requestHeaders config s ''Last-Event-ID'' = Some i"
    by (simp add: requestHeaders_lookup)
  have retry: "timers (onclose config (open_call config input (close_call s))) =
       (case map_option (\<lambda>policy. policy ()) (onClose config) of
          None \<Rightarrow> timers (close_call s) @ [(nextTimerId s, OpenHandler, retryInterval s)]
        | Some DoNotRetry \<Rightarrow> timers (close_call s)
        | Some (RetryAfter ms) \<Rightarrow> timers (close_call s) @ [(nextTimerId s, OpenHandler, ms)])"
    by (simp add: reopen onclose_eq split: option.splits RetryDecision.splits)
       (simp add: close_call_eq)
  show ?thesis
    using closed signal timer kept reopen interval header retry by blast
qed

theorem C10_close_frame_witness:
  "run plain_config ''/sse''
     [ResponseArrives 0 ok_response, FrameArrives 0 frame_a1, RemoteCloses 0, CallsOpen]
     (mount plain_config ''/sse'') = Some reconnecting_session
   \<and> abortController reconnecting_session = Some 1
   \<and> retryTimeoutId reconnecting_session = Some 1
   \<and> lastEventId reconnecting_session = Some ''a1''
   \<and> signals reconnecting_session = [False, False]
   \<and> map fst (timers reconnecting_session) = [1]
   \<and> signals (close_call reconnecting_session) = [False, True]
   \<and> signal_aborted (exchanges (close_call reconnecting_session) ! 1)
   \<and> 1 \<notin> fst ` set (timers (close_call reconnecting_session))
   \<and> snapshot (close_call reconnecting_session) = (CLOSED, False, [], 2)
   \<and> retryTimeoutId (close_call reconnecting_session) = None
   \<and> lastEventId (close_call reconnecting_session) = Some ''a1''
   \<and> retryInterval (close_call reconnecting_session) = 2000
   \<and> errorRetries (close_call reconnecting_session) = 0
   \<and> eventMessage (close_call reconnecting_session) = Some frame_a1
   \<and> snapshot (open_call plain_config ''/sse'' (close_call reconnecting_session))
       = (CONNECTING, True, [], 3)
   \<and> signals (open_call plain_config ''/sse'' (close_call reconnecting_session))
       = [False, True, False]
   \<and> ex_headers (exchanges (open_call plain_config ''/sse'' (close_call reconnecting_session)) ! 2)
        ''Last-Event-ID'' = Some ''a1''
   \<and> timers (onclose plain_config (open_call plain_config ''/sse'' (close_call reconnecting_session)))
       = [(2, OpenHandler, 2000)]"
proof -
  note frame = C10_close_frame [of reconnecting_session plain_config "''/sse''" "''a1''"]
  have facts: "abortController reconnecting_session = Some 1
      \<and> 1 < length (exchanges reconnecting_session)
      \<and> retryTimeoutId reconnecting_session = Some 1
      \<and> lastEventId reconnecting_session = Some ''a1''
      \<and> (case headers_of plain_config of None \<Rightarrow> None | Some h \<Rightarrow> h ''Last-Event-ID'') = None
      \<and> onClose plain_config = None"
    by (simp add: reconnecting_session_def plain_config_def headers_of_def header_entries_def)
  have before: "signals reconnecting_session = [False, False]
      \<and> map fst (timers reconnecting_session) = [1]"
    by (simp add: reconnecting_session_def signals_def)
  have closed: "close_call reconnecting_session =
     reconnecting_session
       \<lparr>explicitlyOpen := False,
        exchanges :=
          (case abortController reconnecting_session of
             None \<Rightarrow> exchanges reconnecting_session
           | Some c \<Rightarrow>
               (exchanges reconnecting_session)
                 [c := (exchanges reconnecting_session ! c)\<lparr>signal_aborted := True\<rparr>]),
        timers := filter (\<lambda>timer. Some (fst timer) \<noteq> retryTimeoutId reconnecting_session)
                    (timers reconnecting_session),
        retryTimeoutId := None,
        readyState := CLOSED\<rparr>"
    using frame by blast
  have signal: "signal_aborted (exchanges (close_call reconnecting_session) ! 1)"
    using facts frame by blast
  have timer: "1 \<notin> fst ` set (timers (close_call reconnecting_session))"
    using facts frame by blast
  have reopened: "open_call plain_config ''/sse'' (close_call reconnecting_session) =
       (close_call reconnecting_session)
         \<lparr>abortController := Some (length (exchanges reconnecting_session)),
          explicitlyOpen := True,
          readyState := CONNECTING,
          exchanges := exchanges (close_call reconnecting_session) @
            [\<lparr>ex_input = ''/sse'', ex_headers = requestHeaders plain_config reconnecting_session,
              ex_init = rest_of plain_config, signal_aborted = False, phase = Fetching\<rparr>]\<rparr>"
    using frame by blast
  have header: "requestHeaders plain_config reconnecting_session ''Last-Event-ID'' = Some ''a1''"
    using facts frame by simp
  have retry: "timers (onclose plain_config
        (open_call plain_config ''/sse'' (close_call reconnecting_session)))
      = timers (close_call reconnecting_session)
          @ [(nextTimerId reconnecting_session, OpenHandler, retryInterval reconnecting_session)]"
  proof -
    have "timers (onclose plain_config
        (open_call plain_config ''/sse'' (close_call reconnecting_session)))
      = (case map_option (\<lambda>policy. policy ()) (onClose plain_config) of
           None \<Rightarrow> timers (close_call reconnecting_session)
             @ [(nextTimerId reconnecting_session, OpenHandler, retryInterval reconnecting_session)]
         | Some DoNotRetry \<Rightarrow> timers (close_call reconnecting_session)
         | Some (RetryAfter ms) \<Rightarrow> timers (close_call reconnecting_session)
             @ [(nextTimerId reconnecting_session, OpenHandler, ms)])"
      using frame by blast
    then show ?thesis
      by (simp add: facts)
  qed
  have cleared: "timers (close_call reconnecting_session) = []
      \<and> retryTimeoutId (close_call reconnecting_session) = None
      \<and> readyState (close_call reconnecting_session) = CLOSED
      \<and> explicitlyOpen (close_call reconnecting_session) = False
      \<and> length (exchanges (close_call reconnecting_session)) = 2
      \<and> signals (close_call reconnecting_session) = [False, True]"
    by (simp add: closed signals_def) (simp add: reconnecting_session_def)
  have kept: "lastEventId (close_call reconnecting_session) = Some ''a1''
      \<and> retryInterval (close_call reconnecting_session) = 2000
      \<and> errorRetries (close_call reconnecting_session) = 0
      \<and> eventMessage (close_call reconnecting_session) = Some frame_a1"
    using frame by (simp add: reconnecting_session_def)
  have scheduled: "timers (onclose plain_config
        (open_call plain_config ''/sse'' (close_call reconnecting_session)))
      = [(2, OpenHandler, 2000)]"
    using cleared by (simp add: retry) (simp add: reconnecting_session_def)
  have again: "snapshot (open_call plain_config ''/sse'' (close_call reconnecting_session))
        = (CONNECTING, True, [], 3)
      \<and> signals (open_call plain_config ''/sse'' (close_call reconnecting_session))
        = [False, True, False]
      \<and> ex_headers
          (exchanges (open_call plain_config ''/sse'' (close_call reconnecting_session)) ! 2)
          ''Last-Event-ID'' = Some ''a1''"
    using cleared header
    by (simp add: reopened snapshot_def signals_def nth_append)
  have after: "snapshot (close_call reconnecting_session) = (CLOSED, False, [], 2)"
    using cleared by (simp add: snapshot_def)
  show ?thesis
    using reconnecting_session_reached facts before signal timer cleared kept scheduled again after
    by blast
qed

section \<open>Further properties of runs\<close>

text \<open>
  X1. The temporal part of the contract of \<^verbatim>\<open>close()\<close> holds wherever no stale timer is
  pending. Let a run from the mount reach a session in which every pending timer is the
  one whose handle is stored. After \<^verbatim>\<open>close()\<close>, whatever happens next short of a call
  of \<^verbatim>\<open>open()\<close>, no exchange is started, no timer is pending and \<open>explicitlyOpen\<close>
  stays false.
\<close>

theorem X1_close_is_final_without_stale_timer:
  assumes "run config input before (mount config input) = Some s"
    and "\<forall>timer \<in> set (timers s). retryTimeoutId s = Some (fst timer)"
    and "CallsOpen \<notin> set after"
    and "run config input after (close_call s) = Some s'"
  shows "length (exchanges s') = length (exchanges s) \<and> timers s' = [] \<and> \<not> explicitlyOpen s'"
proof -
  have "single_flight s"
    using single_flight_run [OF single_flight_mount assms(1)] .
  then have "quiescent (close_call s)"
    using assms(2) by (rule quiescent_close)
  then have "quiescent s' \<and> length (exchanges s') = length (exchanges (close_call s))"
    using assms(3,4) by (rule quiescent_run)
  then show ?thesis
    by (simp add: quiescent_def close_call_eq abort_length)
qed

theorem X1_close_is_final_without_stale_timer_witness:
  "run plain_config ''/sse''
     [ResponseArrives 0 ok_response, FrameArrives 0 frame_a1, RemoteCloses 0]
     (mount plain_config ''/sse'') = Some retrying_session
   \<and> map fst (timers retrying_session) = [1]
   \<and> retryTimeoutId retrying_session = Some 1
   \<and> CallsOpen \<notin> set [VisibilityChanges True, CallsClose]
   \<and> run plain_config ''/sse'' [VisibilityChanges True, CallsClose] (close_call retrying_session)
       = Some (close_call (close_call retrying_session))
   \<and> length (exchanges (close_call (close_call retrying_session))) = 1
   \<and> timers (close_call (close_call retrying_session)) = []
   \<and> \<not> explicitlyOpen (close_call (close_call retrying_session))"
proof -
  have stored: "\<forall>timer \<in> set (timers retrying_session).
      retryTimeoutId retrying_session = Some (fst timer)"
    by (simp add: retrying_session_def)
  have quiet: "CallsOpen \<notin> set [VisibilityChanges True, CallsClose]"
    by simp
  have later: "run plain_config ''/sse'' [VisibilityChanges True, CallsClose]
      (close_call retrying_session) = Some (close_call (close_call retrying_session))"
    by (simp add: visibilitychange_def plain_config_def)
  have facts: "map fst (timers retrying_session) = [1] \<and> retryTimeoutId retrying_session = Some 1
      \<and> length (exchanges retrying_session) = 1"
    by (simp add: retrying_session_def)
  show ?thesis
    using X1_close_is_final_without_stale_timer [OF retrying_session_reached stored quiet later]
      retrying_session_reached later facts
    by simp
qed

text \<open>
  X2. At most one exchange is in flight. In every session that a run from the mount
  reaches, an exchange that is not settled is the one started last, its controller is
  the one in the ref, and the session is not \<open>CLOSED\<close>.
\<close>

theorem X2_one_exchange_in_flight:
  assumes "run config input occs (mount config input) = Some s"
    and "c < length (exchanges s)" and "\<not> settled (exchanges s ! c)"
  shows "abortController s = Some c \<and> Suc c = length (exchanges s) \<and> readyState s \<noteq> CLOSED"
proof -
  have "single_flight s"
    using single_flight_run [OF single_flight_mount assms(1)] .
  then show ?thesis
    using assms(2,3) by (auto simp: single_flight_def)
qed

theorem X2_one_exchange_in_flight_witness:
  "run plain_config ''/sse'' [ResponseArrives 0 ok_response, FrameArrives 0 frame_a1]
     (mount plain_config ''/sse'') = Some streaming_session
   \<and> 0 < length (exchanges streaming_session)
   \<and> \<not> settled (exchanges streaming_session ! 0)
   \<and> abortController streaming_session = Some 0
   \<and> readyState streaming_session \<noteq> CLOSED"
proof -
  have inside: "0 < length (exchanges streaming_session)"
    by (simp add: streaming_session_def)
  have flying: "\<not> settled (exchanges streaming_session ! 0)"
    by (simp add: streaming_session_def settled_def)
  show ?thesis
    using X2_one_exchange_in_flight [OF streaming_session_reached inside flying]
      streaming_session_reached inside flying
    by simp
qed

text \<open>
  X3. In every session that a run from the mount reaches, the stored timer handle and
  the handles of the pending timers are positive, so that the truthiness test of
  \<^verbatim>\<open>_clearRetryTimeout\<close> is the test for \<^verbatim>\<open>null\<close>, and \<open>lastEventId\<close> is never the empty
  string, so that a set \<open>lastEventId\<close> is always injected as a header.
\<close>

theorem X3_sessions_are_wellformed:
  assumes "run config input occs (mount config input) = Some s"
  shows "wellformed s"
  using wellformed_run [OF wellformed_mount assms] .

theorem X3_sessions_are_wellformed_witness:
  "run plain_config ''/sse''
     [ResponseArrives 0 ok_response, FrameArrives 0 frame_a1, RemoteCloses 0]
     (mount plain_config ''/sse'') = Some retrying_session
   \<and> wellformed retrying_session"
  using X3_sessions_are_wellformed [OF retrying_session_reached] retrying_session_reached
  by simp

text \<open>
  X4. A frame whose retry field is a number other than 0 sets \<open>retryInterval\<close> to that
  number; a frame without the field, or with 0, leaves it. No other handler changes
  \<open>retryInterval\<close>: it persists until a later frame overrides it, and a delay returned
  by a policy is used for one timer without being stored.
\<close>

theorem X4_retry_field_of_frame:
  "retryInterval (onmessage config ev s) =
     (case retry ev of
        None \<Rightarrow> retryInterval s
      | Some r \<Rightarrow> if r = 0 then retryInterval s else r)
   \<and> retryInterval (onclose config s) = retryInterval s
   \<and> retryInterval (oncatch config err s) = retryInterval s
   \<and> retryInterval (open_call config input s) = retryInterval s
   \<and> retryInterval (close_call s) = retryInterval s
   \<and> retryInterval (onVisibilityChange config input isHidden s) = retryInterval s
   \<and> retryInterval (reconfigure config input s) = retryInterval s
   \<and> (onopen config response s = Inr s' \<longrightarrow> retryInterval s' = retryInterval s)"
proof -
  have msg: "retryInterval (onmessage config ev s) =
     (case retry ev of
        None \<Rightarrow> retryInterval s
      | Some r \<Rightarrow> if r = 0 then retryInterval s else r)"
    by (simp add: onmessage_def Let_def split: option.splits)
  have retry: "retryInterval (handleRetry config e s1) = retryInterval s1" for e s1
    by (simp add: handleRetry_def setTimeout_def Let_def split: option.splits RetryDecision.splits)
  have clear: "retryInterval (clearRetryTimeout s1) = retryInterval s1" for s1
    by (simp add: clearRetryTimeout_def clearTimeout_def split: option.splits)
  have stop: "retryInterval (abort controller s1) = retryInterval s1" for controller s1
    by (simp add: abort_def split: option.splits)
  have opn: "retryInterval (open_call config input s1) = retryInterval s1" for s1
    by (simp add: open_call_eq)
  have vis: "retryInterval (onVisibilityChange config input isHidden s) = retryInterval s"
    by (simp add: onVisibilityChange_def Let_def opn stop)
  have rec: "retryInterval (reconfigure config input s) = retryInterval s"
    by (simp add: reconfigure_def effect_body_def startStream_def Let_def effect_cleanup_eq)
  have opened: "onopen config response s = Inr s' \<Longrightarrow> retryInterval s' = retryInterval s"
    by (auto simp: onopen_def onopen_begin_def onopen_resume_def
        split: option.splits if_splits sum.splits)
  show ?thesis
    using opened
    by (simp add: msg onclose_def oncatch_def retry clear opn close_call_eq vis rec)
qed

theorem X4_retry_field_of_frame_witness:
  "retryInterval connecting_session = 1000
   \<and> retryInterval (onmessage plain_config frame_a1 connecting_session) = 2000
   \<and> retryInterval (onmessage plain_config (frame_a1\<lparr>retry := None\<rparr>) connecting_session) = 1000
   \<and> onopen plain_config ok_response connecting_session
       = Inr (connecting_session\<lparr>readyState := OPEN, errorRetries := 0\<rparr>)
   \<and> retryInterval (connecting_session\<lparr>readyState := OPEN, errorRetries := 0\<rparr>) = 1000"
proof -
  have opened: "onopen plain_config ok_response connecting_session
       = Inr (connecting_session\<lparr>readyState := OPEN, errorRetries := 0\<rparr>)"
    by (simp add: onopen_def onopen_begin_def onopen_resume_def plain_config_def ok_response_def
          toLowerCase_event_stream)
  show ?thesis
    using opened
      X4_retry_field_of_frame [of plain_config frame_a1 connecting_session]
      X4_retry_field_of_frame [of plain_config "frame_a1\<lparr>retry := None\<rparr>" connecting_session]
      X4_retry_field_of_frame [of plain_config frame_a1 connecting_session _ _ _ ok_response
        "connecting_session\<lparr>readyState := OPEN, errorRetries := 0\<rparr>"]
    by (simp add: frame_a1_def connecting_session_def)
qed

text \<open>
  X5. When the \<^verbatim>\<open>.catch\<close> handler receives an error that JavaScript takes for true, as
  every \<^verbatim>\<open>Error\<close> object is, and the caller's \<^verbatim>\<open>onError\<close>, called with the error and the
  current count, returns \<^verbatim>\<open>false\<close>: the policy is called once, no timer is set (the timer
  list only loses the timer whose handle was stored, and no handle is stored), no
  exchange is started, the state is \<open>CLOSED\<close>, and \<open>explicitlyOpen\<close> and the count of
  error retries are what they were.
\<close>

theorem X5_onError_false_schedules_nothing:
  assumes "truthy err"
    and "onError config = Some policy" and "policy err (errorRetries s) = DoNotRetry"
  shows "retryTimeoutId (oncatch config err s) = None
       \<and> timers (oncatch config err s)
           = filter (\<lambda>timer. Some (fst timer) \<noteq> retryTimeoutId s) (timers s)
       \<and> nextTimerId (oncatch config err s) = nextTimerId s
       \<and> exchanges (oncatch config err s) = exchanges s
       \<and> readyState (oncatch config err s) = CLOSED
       \<and> explicitlyOpen (oncatch config err s) = explicitlyOpen s
       \<and> errorRetries (oncatch config err s) = errorRetries s
       \<and> calls (oncatch config err s) = calls s @ [OnErrorCall err (errorRetries s)]
       \<and> handleRetry config (Some err) s
           = s\<lparr>calls := calls s @ [OnErrorCall err (errorRetries s)]\<rparr>"
proof -
  have "handleRetry config (Some err) s = s\<lparr>calls := calls s @ [OnErrorCall err (errorRetries s)]\<rparr>"
    using assms by (simp add: handleRetry_def Let_def)
  then show ?thesis
    by (simp add: oncatch_refused [OF assms])
qed

theorem X5_onError_false_schedules_nothing_witness:
  "truthy (Error ''network'')
   \<and> onError refusing_config = Some never_retry
   \<and> never_retry (Error ''network'') 0 = DoNotRetry
   \<and> run refusing_config ''/sse'' [TransportFails 0 (Error ''network'')]
        (mount refusing_config ''/sse'')
       = Some (oncatch refusing_config (Error ''network'')
                 (set_phase 0 Finished (mount refusing_config ''/sse'')))
   \<and> snapshot (oncatch refusing_config (Error ''network'')
                 (set_phase 0 Finished (mount refusing_config ''/sse'')))
       = (CLOSED, True, [], 1)
   \<and> retryTimeoutId (oncatch refusing_config (Error ''network'')
                 (set_phase 0 Finished (mount refusing_config ''/sse''))) = None
   \<and> errorRetries (oncatch refusing_config (Error ''network'')
                 (set_phase 0 Finished (mount refusing_config ''/sse''))) = 0
   \<and> calls (oncatch refusing_config (Error ''network'')
                 (set_phase 0 Finished (mount refusing_config ''/sse'')))
       = [OnErrorCall (Error ''network'') 0]"
proof -
  have is_error: "truthy (Error ''network'')"
    by simp
  have supplied: "onError refusing_config = Some never_retry"
    by (simp add: refusing_config_def plain_config_def)
  have mounted: "set_phase 0 Finished (mount refusing_config ''/sse'')
     = \<lparr>abortController = Some 0, lastEventId = None, retryTimeoutId = None,
        explicitlyOpen = True, errorRetries = 0, retryInterval = 1000, hidden = False,
        readyState = CONNECTING, eventMessage = None,
        exchanges = [\<lparr>ex_input = ''/sse'', ex_headers = Map.empty, ex_init = Map.empty,
                       signal_aborted = False, phase = Finished\<rparr>],
        timers = [], nextTimerId = 1, calls = []\<rparr>"
    by (simp add: example_defs hook_defs run_defs Let_def)
  have refused: "never_retry (Error ''network'')
      (errorRetries (set_phase 0 Finished (mount refusing_config ''/sse''))) = DoNotRetry"
    by (simp add: never_retry_def)
  have fails: "run refusing_config ''/sse'' [TransportFails 0 (Error ''network'')]
        (mount refusing_config ''/sse'')
       = Some (oncatch refusing_config (Error ''network'')
                 (set_phase 0 Finished (mount refusing_config ''/sse'')))"
    by (simp add: rejects_def in_phase_def aborted_def)
       (simp add: example_defs hook_defs Let_def)
  show ?thesis
    using is_error supplied fails
      X5_onError_false_schedules_nothing [OF is_error supplied refused]
    by (simp add: snapshot_def never_retry_def) (simp add: mounted)
qed

text \<open>
  X6. What the first effect does when it runs again, as it does after every render with
  a new input. The cleanup aborts the signal of the current exchange and clears the
  timer whose handle is stored; it changes neither the input, the headers nor the
  options of any exchange. If the session is explicitly open and \<^verbatim>\<open>openWhenHidden\<close> is
  not \<^verbatim>\<open>false\<close>, the body then starts one new exchange with the new input, the new
  headers (merged with \<^verbatim>\<open>Last-Event-ID\<close>) and the new options, and the state is
  \<open>CONNECTING\<close>. If \<^verbatim>\<open>openWhenHidden\<close> is \<^verbatim>\<open>false\<close> and the document is hidden, nothing
  is started.
\<close>

theorem X6_effect_rerun:
  "effect_cleanup s =
     s\<lparr>exchanges := exchanges (abort (abortController s) s),
       timers := filter (\<lambda>timer. Some (fst timer) \<noteq> retryTimeoutId s) (timers s),
       retryTimeoutId := None\<rparr>
   \<and> (\<forall>c. abortController s = Some c \<and> c < length (exchanges s) \<longrightarrow>
          signal_aborted (exchanges (reconfigure config input s) ! c))
   \<and> (\<forall>t. retryTimeoutId s = Some t \<longrightarrow> t \<notin> fst ` set (timers (reconfigure config input s)))
   \<and> map ex_input (exchanges (effect_cleanup s)) = map ex_input (exchanges s)
   \<and> map ex_headers (exchanges (effect_cleanup s)) = map ex_headers (exchanges s)
   \<and> map ex_init (exchanges (effect_cleanup s)) = map ex_init (exchanges s)
   \<and> (explicitlyOpen s \<and> openWhenHidden config \<noteq> Some False \<longrightarrow>
        reconfigure config input s =
          (effect_cleanup s)
            \<lparr>abortController := Some (length (exchanges s)),
             readyState := CONNECTING,
             exchanges := exchanges (effect_cleanup s) @
               [\<lparr>ex_input = input, ex_headers = requestHeaders config s,
                 ex_init = rest_of config, signal_aborted = False, phase = Fetching\<rparr>]\<rparr>)
   \<and> (openWhenHidden config = Some False \<and> hidden s \<longrightarrow>
        reconfigure config input s = effect_cleanup s)
   \<and> (input \<noteq> prevInput \<longrightarrow>
        rerender prevConfig prevInput config input s = reconfigure config input s)"
proof -
  have noticed: "input \<noteq> prevInput \<Longrightarrow>
      rerender prevConfig prevInput config input s = reconfigure config input s"
    by (simp add: rerender_def areHookInputsEqual_def dependencies_def Let_def)
  have restart: "explicitlyOpen s \<and> openWhenHidden config \<noteq> Some False \<Longrightarrow>
        reconfigure config input s =
          (effect_cleanup s)
            \<lparr>abortController := Some (length (exchanges s)),
             readyState := CONNECTING,
             exchanges := exchanges (effect_cleanup s) @
               [\<lparr>ex_input = input, ex_headers = requestHeaders config s,
                 ex_init = rest_of config, signal_aborted = False, phase = Fetching\<rparr>]\<rparr>"
    by (simp add: reconfigure_def effect_body_def startStream_def Let_def effect_cleanup_eq
          abort_length requestHeaders_def)
  have suspended: "openWhenHidden config = Some False \<and> hidden s \<Longrightarrow>
        reconfigure config input s = effect_cleanup s"
    by (simp add: reconfigure_def effect_body_def)
  have signal: "abortController s = Some c \<and> c < length (exchanges s) \<Longrightarrow>
          signal_aborted (exchanges (reconfigure config input s) ! c)" for c
    by (simp add: reconfigure_def effect_body_def startStream_def Let_def effect_cleanup_eq
          abort_def nth_append)
  have timer: "retryTimeoutId s = Some t \<Longrightarrow> t \<notin> fst ` set (timers (reconfigure config input s))" for t
    by (auto simp: reconfigure_def effect_body_def startStream_def Let_def effect_cleanup_eq)
  have kept: "map ex_input (exchanges (effect_cleanup s)) = map ex_input (exchanges s)
     \<and> map ex_headers (exchanges (effect_cleanup s)) = map ex_headers (exchanges s)
     \<and> map ex_init (exchanges (effect_cleanup s)) = map ex_init (exchanges s)"
    using abort_keeps_requests [of "abortController s" s] by (simp add: effect_cleanup_eq)
  show ?thesis
    using restart suspended signal timer kept noticed effect_cleanup_eq [of s] by blast
qed

theorem X6_effect_rerun_witness:
  "abortController retrying_session = Some 0
   \<and> retryTimeoutId retrying_session = Some 1
   \<and> explicitlyOpen retrying_session
   \<and> openWhenHidden bearer_config \<noteq> Some False
   \<and> snapshot (reconfigure bearer_config ''/events'' retrying_session) = (CONNECTING, True, [], 2)
   \<and> signal_aborted (exchanges (reconfigure bearer_config ''/events'' retrying_session) ! 0)
   \<and> 1 \<notin> fst ` set (timers (reconfigure bearer_config ''/events'' retrying_session))
   \<and> map ex_input (exchanges (reconfigure bearer_config ''/events'' retrying_session))
       = [''/sse'', ''/events'']
   \<and> ex_init (exchanges (reconfigure bearer_config ''/events'' retrying_session) ! 1) ''method''
       = Some ''POST''
   \<and> ex_headers (exchanges (reconfigure bearer_config ''/events'' retrying_session) ! 1)
        ''Authorization'' = Some ''Bearer t''
   \<and> openWhenHidden gated_config = Some False
   \<and> hidden suspended_session
   \<and> reconfigure gated_config ''/events'' suspended_session = suspended_session"
proof -
  have facts: "abortController retrying_session = Some 0 \<and> 0 < length (exchanges retrying_session)
      \<and> retryTimeoutId retrying_session = Some 1 \<and> explicitlyOpen retrying_session"
    by (simp add: retrying_session_def)
  have off: "openWhenHidden bearer_config \<noteq> Some False"
    by (simp add: bearer_config_def plain_config_def)
  have on: "openWhenHidden gated_config = Some False \<and> hidden suspended_session"
    by (simp add: gated_config_def plain_config_def suspended_session_def)
  note restart = X6_effect_rerun [of retrying_session bearer_config "''/events''"]
  note suspend = X6_effect_rerun [of suspended_session gated_config "''/events''"]
  have signal: "signal_aborted (exchanges (reconfigure bearer_config ''/events'' retrying_session) ! 0)"
    using facts restart by blast
  have timer: "1 \<notin> fst ` set (timers (reconfigure bearer_config ''/events'' retrying_session))"
    using facts restart by blast
  have started: "reconfigure bearer_config ''/events'' retrying_session =
          (effect_cleanup retrying_session)
            \<lparr>abortController := Some (length (exchanges retrying_session)),
             readyState := CONNECTING,
             exchanges := exchanges (effect_cleanup retrying_session) @
               [\<lparr>ex_input = ''/events'', ex_headers = requestHeaders bearer_config retrying_session,
                 ex_init = rest_of bearer_config, signal_aborted = False, phase = Fetching\<rparr>]\<rparr>"
    using facts off restart by blast
  have cleaned: "effect_cleanup retrying_session =
     retrying_session
       \<lparr>exchanges := exchanges (abort (abortController retrying_session) retrying_session),
        timers := filter (\<lambda>timer. Some (fst timer) \<noteq> retryTimeoutId retrying_session)
                    (timers retrying_session),
        retryTimeoutId := None\<rparr>"
    using restart by blast
  have stays: "reconfigure gated_config ''/events'' suspended_session = effect_cleanup suspended_session"
    using on suspend by blast
  have same: "effect_cleanup suspended_session = suspended_session"
    by (simp add: effect_cleanup_eq) (simp add: suspended_session_def abort_def)
  show ?thesis
    using facts off on signal timer
    by (simp add: stays same)
       (simp add: started cleaned snapshot_def abort_length nth_append,
        simp add: retrying_session_def abort_def bearer_config_def plain_config_def
          requestHeaders_def headers_of_def header_entries_def rest_entries_def rest_of_def)
qed

end
